theory Spec2Isabelle
  imports Complex_Main
begin

section \<open>Scalars: float32 tensors of rank 0\<close>

text \<open>
  Losses and learning rates are scalar float32 tensors. They are modelled as the
  reals extended with the IEEE special values: arithmetic on finite values is exact
  (rounding and overflow are not modelled), and a division by zero produces a special
  value instead of raising, as TensorFlow's tensor division does. Zero carries no
  sign; a zero divisor is read as \<open>+0.0\<close>.
\<close>

datatype tfloat = Fin real | PInf | NInf | NaN

fun fneg :: "tfloat \<Rightarrow> tfloat" where
  "fneg (Fin a) = Fin (- a)"
| "fneg PInf = NInf"
| "fneg NInf = PInf"
| "fneg NaN = NaN"

fun fadd :: "tfloat \<Rightarrow> tfloat \<Rightarrow> tfloat" where
  "fadd (Fin a) (Fin b) = Fin (a + b)"
| "fadd NaN y = NaN"
| "fadd x NaN = NaN"
| "fadd PInf NInf = NaN"
| "fadd NInf PInf = NaN"
| "fadd PInf y = PInf"
| "fadd NInf y = NInf"
| "fadd x PInf = PInf"
| "fadd x NInf = NInf"

definition fsub :: "tfloat \<Rightarrow> tfloat \<Rightarrow> tfloat" where
  "fsub x y = fadd x (fneg y)"

fun fmul :: "tfloat \<Rightarrow> tfloat \<Rightarrow> tfloat" where
  "fmul (Fin a) (Fin b) = Fin (a * b)"
| "fmul NaN y = NaN"
| "fmul x NaN = NaN"
| "fmul (Fin a) PInf = (if a = 0 then NaN else if 0 < a then PInf else NInf)"
| "fmul (Fin a) NInf = (if a = 0 then NaN else if 0 < a then NInf else PInf)"
| "fmul PInf (Fin b) = (if b = 0 then NaN else if 0 < b then PInf else NInf)"
| "fmul NInf (Fin b) = (if b = 0 then NaN else if 0 < b then NInf else PInf)"
| "fmul PInf PInf = PInf"
| "fmul PInf NInf = NInf"
| "fmul NInf PInf = NInf"
| "fmul NInf NInf = PInf"

text \<open>
  Division of a tensor by a Python number or by a finite counter: every divisor in the
  source is one (\<open>warmup_steps\<close>, \<open>total_steps - warmup_steps\<close>, \<open>2.0\<close>,
  \<open>num_batches\<close>).
\<close>

fun fdiv :: "tfloat \<Rightarrow> real \<Rightarrow> tfloat" where
  "fdiv (Fin a) d =
     (if d = 0 then (if a = 0 then NaN else if 0 < a then PInf else NInf)
      else Fin (a / d))"
| "fdiv PInf d = (if 0 \<le> d then PInf else NInf)"
| "fdiv NInf d = (if 0 \<le> d then NInf else PInf)"
| "fdiv NaN d = NaN"

fun fcos :: "tfloat \<Rightarrow> tfloat" where
  "fcos (Fin a) = Fin (cos a)"
| "fcos x = NaN"


fun is_finite :: "tfloat \<Rightarrow> bool" where
  "is_finite (Fin a) = True"
| "is_finite x = False"

section \<open>The learning-rate schedule\<close>

text \<open>
  \<^verbatim>\<open>class CosineLearningRateWithLinearWarmup\<close>: the four constructor arguments
  are Python numbers; \<open>global_step\<close> is cast to float32 on entry.
\<close>

record CosineLearningRateWithLinearWarmup =
  lr :: real
  total_steps :: real
  warmup_lr :: real
  warmup_steps :: real

definition linear_warmup :: "CosineLearningRateWithLinearWarmup \<Rightarrow> real \<Rightarrow> tfloat" where
  "linear_warmup self global_step =
     fadd (Fin (warmup_lr self))
       (fmul (fdiv (Fin global_step) (warmup_steps self)) (Fin (lr self - warmup_lr self)))"

definition consine_lr :: "CosineLearningRateWithLinearWarmup \<Rightarrow> real \<Rightarrow> tfloat" where
  "consine_lr self global_step =
     fdiv
       (fmul (Fin (lr self))
          (fadd
             (fcos (fdiv (fmul (Fin pi) (fsub (Fin global_step) (Fin (warmup_steps self))))
                      (total_steps self - warmup_steps self)))
             (Fin 1)))
       2"

text \<open>\<^verbatim>\<open>__call__\<close>: \<open>tf.where\<close> on a scalar condition selects one of the two values.\<close>

definition schedule_call :: "CosineLearningRateWithLinearWarmup \<Rightarrow> real \<Rightarrow> tfloat" where
  "schedule_call self global_step =
     (if global_step < warmup_steps self then linear_warmup self global_step
      else consine_lr self global_step)"

section \<open>The model object and its collaborators\<close>

text \<open>
  A method returns \<open>Inl e\<close> when the Python call raises \<open>e\<close> and \<open>Inr\<close> of its
  result otherwise. The only exception the methods themselves can raise is the
  \<open>AttributeError\<close> of reading one of the four attributes that \<open>fit\<close> assigns
  (\<open>writer\<close>, \<open>use_ema\<close>, \<open>use_adv\<close>, \<open>adv_config\<close>) before any \<open>fit\<close> has run.
  Collaborators (the network, the loss objects, automatic differentiation, the
  optimizer, the adversarial-loss provider, the callbacks) are total functions here:
  an exception of theirs would pass through every method unchanged. Nothing in the
  source catches an exception, so the state a method had reached when it raised is not
  kept. A call of a method is read as an execution of its Python text; under
  \<^verbatim>\<open>@tf.function\<close> this is what the call that traces the method does. TensorFlow
  keeps a trace and can run it again in a later call, with the values that
  \<open>writer\<close>, \<open>use_adv\<close> and \<open>use_ema\<close> had when it was made; that reuse is not
  modelled, and no statement below relates two calls of \<open>fit\<close>.
\<close>

datatype error = AttributeError string

text \<open>\<^verbatim>\<open>nsl.configs.make_adv_reg_config(multiplier, adv_step_size, adv_grad_norm)\<close>\<close>

record adv_reg_config =
  multiplier :: real
  adv_step_size :: real
  adv_grad_norm :: string

definition default_adv_config :: adv_reg_config where
  "default_adv_config =
     \<lparr>multiplier = 2 / 10, adv_step_size = 2 / 10, adv_grad_norm = ''infinity''\<rparr>"

text \<open>
  \<open>'a\<close> is the type of tensors (images, targets, predictions), \<open>'w\<close> the values of
  the trainable variables (and of their gradients), \<open>'o\<close> the optimizer's own state and
  \<open>'h\<close> a summary writer. An attribute that has not been assigned is \<open>None\<close>; the
  attribute \<open>writer\<close> assigned Python's \<open>None\<close> is \<open>Some None\<close>.
\<close>

record ('a, 'w, 'o, 'h) AdvLossModel =
  trainable_variables :: 'w
  optimizer :: 'o
  loss :: "('a \<Rightarrow> 'a \<Rightarrow> tfloat) list"
  writer :: "'h option option"
  use_ema :: "bool option"
  use_adv :: "bool option"
  adv_config :: "adv_reg_config option"

text \<open>
  What the methods call outside this file:
  \<^item> \<open>call self images training\<close> is \<^verbatim>\<open>self(images, training=...)\<close>;
  \<^item> \<open>adversarial_loss self images y_trues labeled_loss cfg\<close> is
    \<^verbatim>\<open>nsl.keras.adversarial_loss(images, y_trues, self, self._compute_total_loss,
    labeled_loss=loss, gradient_tape=tape_x, adv_config=cfg)\<close>;
  \<^item> \<open>gradient self inputs loss\<close> is \<^verbatim>\<open>tape_w.gradient(loss, self.trainable_variables)\<close>,
    the derivative of the computation the tape recorded for this model and batch;
  \<^item> \<open>apply_gradients opt gradients variables\<close> is
    \<^verbatim>\<open>self.optimizer.apply_gradients(zip(gradients, self.trainable_variables))\<close>: the new
    optimizer state and the new values of the variables.
\<close>

record ('a, 'w, 'o, 'h) collaborators =
  call :: "('a, 'w, 'o, 'h) AdvLossModel \<Rightarrow> 'a \<Rightarrow> bool \<Rightarrow> 'a list"
  adversarial_loss ::
    "('a, 'w, 'o, 'h) AdvLossModel \<Rightarrow> 'a \<Rightarrow> 'a list \<Rightarrow> tfloat \<Rightarrow> adv_reg_config \<Rightarrow> tfloat"
  gradient :: "('a, 'w, 'o, 'h) AdvLossModel \<Rightarrow> 'a \<times> 'a list \<Rightarrow> tfloat \<Rightarrow> 'w"
  apply_gradients :: "'o \<Rightarrow> 'w \<Rightarrow> 'w \<Rightarrow> 'o \<times> 'w"

text \<open>
  The operations a step or an epoch performs besides computing its result, in the
  order the source issues them:
  \<^item> \<open>SummaryImage h x\<close> is \<^verbatim>\<open>tf.summary.image\<close> under the writer \<open>h\<close>, given the
    images \<open>x\<close> of a batch scaled by 255 and cast to \<open>uint8\<close>, at most 8 of them;
  \<^item> \<open>Print n v\<close> is \<^verbatim>\<open>tf.print(num_batches, ':', total_loss / num_batches, sep='')\<close>;
  \<^item> \<open>TapeWatchVariables\<close> and \<open>TapeWatchImages\<close> are \<^verbatim>\<open>tape_w.watch\<close> and
    \<^verbatim>\<open>tape_x.watch\<close>, \<open>TapeGradient\<close> is \<^verbatim>\<open>tape_w.gradient\<close>;
  \<^item> \<open>ApplyGradients\<close> is \<^verbatim>\<open>self.optimizer.apply_gradients\<close>;
  \<^item> \<open>EmaApply decay zero_debias\<close> is \<^verbatim>\<open>ExponentialMovingAverage(decay, zero_debias)
    .apply(self.trainable_variables)\<close>, issued under a control dependency on the
    optimizer's update. The moving average object is local to the step and its shadow
    variables are TensorFlow's; they are not part of the model object.
\<close>

datatype ('a, 'h) effect =
    SummaryImage 'h 'a
  | Print real tfloat
  | TapeWatchVariables
  | TapeWatchImages
  | TapeGradient
  | ApplyGradients
  | EmaApply real bool

section \<open>The loss aggregator\<close>

text \<open>
  \<^verbatim>\<open>for y_true, y_pred, loss_object in zip(y_trues, y_preds, self.loss): loss += ...\<close>,
  starting from \<open>loss = 0\<close>.
\<close>

fun compute_total_loss_loop ::
  "tfloat \<Rightarrow> ('a \<times> 'a \<times> ('a \<Rightarrow> 'a \<Rightarrow> tfloat)) list \<Rightarrow> tfloat" where
  "compute_total_loss_loop loss_value [] = loss_value"
| "compute_total_loss_loop loss_value ((y_true, y_pred, loss_object) # rest) =
     compute_total_loss_loop (fadd loss_value (loss_object y_true y_pred)) rest"

definition compute_total_loss ::
  "('a, 'w, 'o, 'h) AdvLossModel \<Rightarrow> 'a list \<Rightarrow> 'a list \<Rightarrow> 'a option \<Rightarrow> error + tfloat" where
  "compute_total_loss self y_trues y_preds sample_weights =
     Inr (compute_total_loss_loop (Fin 0) (zip y_trues (zip y_preds (loss self))))"

section \<open>The step executor\<close>

definition train_step ::
  "('a, 'w, 'o, 'h) collaborators \<Rightarrow> ('a, 'w, 'o, 'h) AdvLossModel \<Rightarrow> 'a \<times> 'a list \<Rightarrow>
   error + (tfloat \<times> ('a, 'w, 'o, 'h) AdvLossModel \<times> ('a, 'h) effect list)" where
  "train_step tf self inputs =
     (let images = fst inputs; y_trues = snd inputs in
      case use_adv self of
        None \<Rightarrow> Inl (AttributeError ''use_adv'')
      | Some adv \<Rightarrow>
         (case
            (if adv then
               (case compute_total_loss self y_trues (call tf self images True) None of
                  Inl e \<Rightarrow> Inl e
                | Inr labeled_loss \<Rightarrow>
                   (case adv_config self of
                      None \<Rightarrow> Inl (AttributeError ''adv_config'')
                    | Some cfg \<Rightarrow>
                       Inr (fadd labeled_loss
                              (fmul (Fin (multiplier cfg))
                                 (adversarial_loss tf self images y_trues labeled_loss cfg)))))
             else compute_total_loss self y_trues (call tf self images True) None)
          of
            Inl e \<Rightarrow> Inl e
          | Inr loss_value \<Rightarrow>
             (let gradients = gradient tf self inputs loss_value;
                  applied = apply_gradients tf (optimizer self) gradients (trainable_variables self);
                  self' = self\<lparr>trainable_variables := snd applied, optimizer := fst applied\<rparr>
              in case use_ema self' of
                   None \<Rightarrow> Inl (AttributeError ''use_ema'')
                 | Some ema \<Rightarrow>
                    Inr (loss_value, self',
                         [TapeWatchVariables] @ (if adv then [TapeWatchImages] else []) @
                         [TapeGradient, ApplyGradients] @
                         (if ema then [EmaApply (9999 / 10000) True] else [])))))"

definition val_step ::
  "('a, 'w, 'o, 'h) collaborators \<Rightarrow> ('a, 'w, 'o, 'h) AdvLossModel \<Rightarrow> 'a \<times> 'a list \<Rightarrow>
   error + (tfloat \<times> ('a, 'w, 'o, 'h) AdvLossModel \<times> ('a, 'h) effect list)" where
  "val_step tf self inputs =
     (let images = fst inputs; y_trues = snd inputs in
      case compute_total_loss self y_trues (call tf self images False) None of
        Inl e \<Rightarrow> Inl e
      | Inr loss_value \<Rightarrow> Inr (loss_value, self, []))"

section \<open>The epoch runner\<close>

text \<open>
  The dataset is a finite sequence of batches. The distribution strategy is read with
  one replica: \<^verbatim>\<open>experimental_run_v2(f, args=(batch,))\<close> is the call \<open>f(batch)\<close> and
  \<^verbatim>\<open>reduce(SUM, per_replica_loss, axis=None)\<close> of the one value is that value. The
  loop variables are \<open>total_loss\<close> and \<open>num_batches\<close>.

  The method is decorated with \<^verbatim>\<open>@tf.function\<close>: before it runs it is traced, and
  tracing executes the body of the loop once whatever the dataset holds, the step
  function included. So the attributes that one pass of the loop body reads are read,
  in the order of that pass, even when the dataset has no batch, and a missing one
  raises there. The same tracing makes the final division one of tensors.
\<close>

definition traced_reads :: "('a, 'w, 'o, 'h) AdvLossModel \<Rightarrow> bool \<Rightarrow> error option" where
  "traced_reads self step =
     (case writer self of
        None \<Rightarrow> Some (AttributeError ''writer'')
      | Some w \<Rightarrow>
         (if step then
            (case use_adv self of
               None \<Rightarrow> Some (AttributeError ''use_adv'')
             | Some adv \<Rightarrow>
                (if adv \<and> adv_config self = None then Some (AttributeError ''adv_config'')
                 else if use_ema self = None then Some (AttributeError ''use_ema'')
                 else None))
          else None))"

fun distributed_epoch_loop ::
  "('a, 'w, 'o, 'h) collaborators \<Rightarrow> bool \<Rightarrow> tfloat \<Rightarrow> real \<Rightarrow>
   ('a, 'w, 'o, 'h) AdvLossModel \<Rightarrow> ('a \<times> 'a list) list \<Rightarrow>
   error + ((tfloat \<times> real) \<times> ('a, 'w, 'o, 'h) AdvLossModel \<times> ('a, 'h) effect list)" where
  "distributed_epoch_loop tf step total_loss num_batches self [] =
     Inr ((total_loss, num_batches), self, [])"
| "distributed_epoch_loop tf step total_loss num_batches self (batch # rest) =
     (case writer self of
        None \<Rightarrow> Inl (AttributeError ''writer'')
      | Some w \<Rightarrow>
         (case (if step then train_step tf self batch else val_step tf self batch) of
            Inl e \<Rightarrow> Inl e
          | Inr (per_replica_loss, self', step_effects) \<Rightarrow>
             (let total_loss' = fadd total_loss per_replica_loss;
                  num_batches' = num_batches + 1
              in case distributed_epoch_loop tf step total_loss' num_batches' self' rest of
                   Inl e \<Rightarrow> Inl e
                 | Inr (totals, self'', effects) \<Rightarrow>
                    Inr (totals, self'',
                         (case w of None \<Rightarrow> [] | Some h \<Rightarrow> [SummaryImage h (fst batch)]) @
                         step_effects @
                         [Print num_batches' (fdiv total_loss' num_batches')] @ effects))))"

definition distributed_epoch ::
  "('a, 'w, 'o, 'h) collaborators \<Rightarrow> ('a, 'w, 'o, 'h) AdvLossModel \<Rightarrow> ('a \<times> 'a list) list \<Rightarrow>
   bool \<Rightarrow> int \<Rightarrow> error + (tfloat \<times> ('a, 'w, 'o, 'h) AdvLossModel \<times> ('a, 'h) effect list)" where
  "distributed_epoch tf self dataset step num =
     (case traced_reads self step of
        Some e \<Rightarrow> Inl e
      | None \<Rightarrow>
         (case distributed_epoch_loop tf step (Fin 0) 0 self dataset of
            Inl e \<Rightarrow> Inl e
          | Inr ((total_loss, num_batches), self', effects) \<Rightarrow>
             Inr (fdiv total_loss num_batches, self', effects)))"

section \<open>Callbacks and the training orchestrator\<close>

text \<open>
  The log is a Python dictionary from strings to scalars. A callback is an object with
  a state of its own and five methods; the log is passed by reference, so a hook returns
  the log as it leaves it. What a callback does to the model through the reference
  \<open>set_model\<close> hands it is outside this model.
\<close>

type_synonym logs = "string \<Rightarrow> tfloat option"

record 'c callback =
  cb_state :: 'c
  set_model :: "'c \<Rightarrow> 'c"
  on_train_begin :: "'c \<Rightarrow> logs \<Rightarrow> 'c \<times> logs"
  on_epoch_begin :: "'c \<Rightarrow> nat \<Rightarrow> logs \<Rightarrow> 'c \<times> logs"
  on_epoch_end :: "'c \<Rightarrow> nat \<Rightarrow> logs \<Rightarrow> 'c \<times> logs"
  on_train_end :: "'c \<Rightarrow> logs \<Rightarrow> 'c \<times> logs"

datatype hook = OnTrainBegin | OnEpochBegin nat | OnEpochEnd nat | OnTrainEnd

text \<open>
  What \<open>fit\<close> does, in order: \<open>SetModel i\<close> and \<open>HookCall i h l\<close> are calls on the
  callback at position \<open>i\<close> of the list, the latter with the log \<open>l\<close> as it is when
  the call is made; \<open>EpochRun step v\<close> is a call of \<open>_distributed_epoch\<close> that
  returned \<open>v\<close>.
\<close>

datatype event =
    SetModel nat
  | HookCall nat hook logs
  | EpochRun bool tfloat

fun call_hook :: "hook \<Rightarrow> 'c callback \<Rightarrow> logs \<Rightarrow> 'c callback \<times> logs" where
  "call_hook OnTrainBegin cb l =
     (cb\<lparr>cb_state := fst (on_train_begin cb (cb_state cb) l)\<rparr>,
      snd (on_train_begin cb (cb_state cb) l))"
| "call_hook (OnEpochBegin epoch) cb l =
     (cb\<lparr>cb_state := fst (on_epoch_begin cb (cb_state cb) epoch l)\<rparr>,
      snd (on_epoch_begin cb (cb_state cb) epoch l))"
| "call_hook (OnEpochEnd epoch) cb l =
     (cb\<lparr>cb_state := fst (on_epoch_end cb (cb_state cb) epoch l)\<rparr>,
      snd (on_epoch_end cb (cb_state cb) epoch l))"
| "call_hook OnTrainEnd cb l =
     (cb\<lparr>cb_state := fst (on_train_end cb (cb_state cb) l)\<rparr>,
      snd (on_train_end cb (cb_state cb) l))"

text \<open>\<^verbatim>\<open>for callback in callbacks: callback.<hook>(logs)\<close>, from position \<open>i\<close> on.\<close>

fun emit ::
  "hook \<Rightarrow> nat \<Rightarrow> 'c callback list \<Rightarrow> logs \<Rightarrow> event list \<times> 'c callback list \<times> logs" where
  "emit h i [] l = ([], [], l)"
| "emit h i (cb # cbs) l =
     (case call_hook h cb l of
        (cb', l') \<Rightarrow>
          (case emit h (Suc i) cbs l' of
             (events, cbs', l'') \<Rightarrow> (HookCall i h l # events, cb' # cbs', l'')))"

fun configure_callbacks :: "nat \<Rightarrow> 'c callback list \<Rightarrow> event list \<times> 'c callback list" where
  "configure_callbacks i [] = ([], [])"
| "configure_callbacks i (cb # cbs) =
     (case configure_callbacks (Suc i) cbs of
        (events, cbs') \<Rightarrow>
          (SetModel i # events, cb\<lparr>cb_state := set_model cb (cb_state cb)\<rparr> # cbs'))"

text \<open>
  The state that the loop over the epochs carries: the calls made and the effects
  performed so far, the model, the callbacks and the log.
\<close>

record ('a, 'w, 'o, 'h, 'c) fit_result =
  calls :: "event list"
  effects :: "('a, 'h) effect list"
  model_after :: "('a, 'w, 'o, 'h) AdvLossModel"
  callbacks_after :: "'c callback list"
  logs_after :: logs

text \<open>The body of \<^verbatim>\<open>for epoch in range(epochs)\<close>.\<close>

definition fit_epoch ::
  "('a, 'w, 'o, 'h) collaborators \<Rightarrow> ('a \<times> 'a list) list \<Rightarrow> int \<Rightarrow> ('a \<times> 'a list) list \<Rightarrow> int \<Rightarrow>
   nat \<Rightarrow> ('a, 'w, 'o, 'h, 'c) fit_result \<Rightarrow> error + ('a, 'w, 'o, 'h, 'c) fit_result" where
  "fit_epoch tf train_dataset train_num val_dataset val_num epoch st =
     (case emit (OnEpochBegin epoch) 0 (callbacks_after st) (logs_after st) of
        (begin_events, cbs1, l1) \<Rightarrow>
          (case distributed_epoch tf (model_after st) train_dataset True train_num of
             Inl e \<Rightarrow> Inl e
           | Inr (train_loss, self1, train_effects) \<Rightarrow>
              (case distributed_epoch tf self1 val_dataset False val_num of
                 Inl e \<Rightarrow> Inl e
               | Inr (val_loss, self2, val_effects) \<Rightarrow>
                  (case emit (OnEpochEnd epoch) 0 cbs1
                          (l1(''loss'' \<mapsto> train_loss, ''val_loss'' \<mapsto> val_loss)) of
                     (end_events, cbs2, l2) \<Rightarrow>
                       Inr \<lparr>calls = calls st @ begin_events @
                                    [EpochRun True train_loss, EpochRun False val_loss] @
                                    end_events,
                            effects = effects st @ train_effects @ val_effects,
                            model_after = self2, callbacks_after = cbs2,
                            logs_after = l2\<rparr>))))"

fun fit_epochs ::
  "('a, 'w, 'o, 'h) collaborators \<Rightarrow> ('a \<times> 'a list) list \<Rightarrow> int \<Rightarrow> ('a \<times> 'a list) list \<Rightarrow> int \<Rightarrow>
   nat list \<Rightarrow> ('a, 'w, 'o, 'h, 'c) fit_result \<Rightarrow> error + ('a, 'w, 'o, 'h, 'c) fit_result" where
  "fit_epochs tf train_dataset train_num val_dataset val_num [] st = Inr st"
| "fit_epochs tf train_dataset train_num val_dataset val_num (epoch # rest) st =
     (case fit_epoch tf train_dataset train_num val_dataset val_num epoch st of
        Inl e \<Rightarrow> Inl e
      | Inr st' \<Rightarrow> fit_epochs tf train_dataset train_num val_dataset val_num rest st')"

text \<open>
  \<open>fit\<close> returns nothing; what it leaves behind is the model, the callbacks and the
  log, and the calls it made.
\<close>

definition fit ::
  "('a, 'w, 'o, 'h) collaborators \<Rightarrow> ('a, 'w, 'o, 'h) AdvLossModel \<Rightarrow> int \<Rightarrow> 'c callback list \<Rightarrow>
   ('a \<times> 'a list) list \<Rightarrow> int \<Rightarrow> ('a \<times> 'a list) list \<Rightarrow> int \<Rightarrow>
   'h option \<Rightarrow> bool \<Rightarrow> bool \<Rightarrow> adv_reg_config \<Rightarrow>
   error + ('a, 'w, 'o, 'h, 'c) fit_result" where
  "fit tf self epochs callbacks train_dataset train_num val_dataset val_num
       writer' use_ema' use_adv' adv_config' =
     (let self1 = self\<lparr>writer := Some writer', use_ema := Some use_ema',
                       use_adv := Some use_adv', adv_config := Some adv_config'\<rparr>
      in case configure_callbacks 0 callbacks of
           (bind_events, cbs0) \<Rightarrow>
             (case emit OnTrainBegin 0 cbs0 Map.empty of
                (begin_events, cbs1, l1) \<Rightarrow>
                  (case fit_epochs tf train_dataset train_num val_dataset val_num
                          [0..<nat epochs]
                          \<lparr>calls = bind_events @ begin_events, effects = [],
                           model_after = self1, callbacks_after = cbs1, logs_after = l1\<rparr> of
                     Inl e \<Rightarrow> Inl e
                   | Inr st \<Rightarrow>
                      (case emit OnTrainEnd 0 (callbacks_after st) (logs_after st) of
                         (end_events, cbs3, l3) \<Rightarrow>
                           Inr (st\<lparr>calls := calls st @ end_events,
                                   callbacks_after := cbs3, logs_after := l3\<rparr>)))))"

section \<open>Notions used in the statements\<close>

text \<open>The sum of a list of scalars, added from the left as a running total is.\<close>

definition fsum :: "tfloat list \<Rightarrow> tfloat" where
  "fsum xs = foldl fadd (Fin 0) xs"

text \<open>
  The losses of an epoch: what the step returns on each batch, in dataset order, each
  step run on the model as the previous one left it.
\<close>

fun epoch_losses ::
  "('a, 'w, 'o, 'h) collaborators \<Rightarrow> bool \<Rightarrow> ('a, 'w, 'o, 'h) AdvLossModel \<Rightarrow>
   ('a \<times> 'a list) list \<Rightarrow> tfloat list" where
  "epoch_losses tf step self [] = []"
| "epoch_losses tf step self (batch # rest) =
     (case (if step then train_step tf self batch else val_step tf self batch) of
        Inl e \<Rightarrow> []
      | Inr (loss_value, self', step_effects) \<Rightarrow> loss_value # epoch_losses tf step self' rest)"

text \<open>The four attributes that \<open>fit\<close> assigns, and the state in which all are set.\<close>

definition config_of ::
  "('a, 'w, 'o, 'h) AdvLossModel \<Rightarrow>
   'h option option \<times> bool option \<times> bool option \<times> adv_reg_config option" where
  "config_of self = (writer self, use_ema self, use_adv self, adv_config self)"

definition configured :: "('a, 'w, 'o, 'h) AdvLossModel \<Rightarrow> bool" where
  "configured self \<longleftrightarrow>
     writer self \<noteq> None \<and> use_ema self \<noteq> None \<and> use_adv self \<noteq> None \<and> adv_config self \<noteq> None"

text \<open>A callback none of whose hooks changes the log.\<close>

definition leaves_log :: "'c callback \<Rightarrow> bool" where
  "leaves_log cb \<longleftrightarrow>
     (\<forall>s l. snd (on_train_begin cb s l) = l) \<and>
     (\<forall>s epoch l. snd (on_epoch_begin cb s epoch l) = l) \<and>
     (\<forall>s epoch l. snd (on_epoch_end cb s epoch l) = l) \<and>
     (\<forall>s l. snd (on_train_end cb s l) = l)"

text \<open>A callback none of whose hooks removes a key from the log.\<close>

definition keeps_keys :: "'c callback \<Rightarrow> bool" where
  "keeps_keys cb \<longleftrightarrow>
     (\<forall>s l. dom l \<subseteq> dom (snd (on_train_begin cb s l))) \<and>
     (\<forall>s epoch l. dom l \<subseteq> dom (snd (on_epoch_begin cb s epoch l))) \<and>
     (\<forall>s epoch l. dom l \<subseteq> dom (snd (on_epoch_end cb s epoch l))) \<and>
     (\<forall>s l. dom l \<subseteq> dom (snd (on_train_end cb s l)))"


text \<open>
  The order of calls that the callback protocol prescribes for \<open>n\<close> callbacks and a
  number of epochs: an event without its log, result and effects is its kind.
\<close>

datatype call_kind = Bind nat | Hook nat hook | Run bool

fun kind_of :: "event \<Rightarrow> call_kind" where
  "kind_of (SetModel i) = Bind i"
| "kind_of (HookCall i h l) = Hook i h"
| "kind_of (EpochRun step v) = Run step"

definition hook_round :: "hook \<Rightarrow> nat \<Rightarrow> call_kind list" where
  "hook_round h n = map (\<lambda>i. Hook i h) [0..<n]"

definition protocol :: "nat \<Rightarrow> nat \<Rightarrow> call_kind list" where
  "protocol n epochs =
     map Bind [0..<n] @ hook_round OnTrainBegin n @
     concat (map (\<lambda>epoch. hook_round (OnEpochBegin epoch) n @ [Run True, Run False] @
                            hook_round (OnEpochEnd epoch) n) [0..<epochs]) @
     hook_round OnTrainEnd n"

text \<open>The calls of a run of \<open>fit\<close>, none if it raised.\<close>

definition calls_of :: "error + ('a, 'w, 'o, 'h, 'c) fit_result \<Rightarrow> event list" where
  "calls_of res = (case res of Inl e \<Rightarrow> [] | Inr r \<Rightarrow> calls r)"

text \<open>The calls of one hook in a list of events: the callback and the log passed.\<close>

fun hook_logs :: "hook \<Rightarrow> event list \<Rightarrow> (nat \<times> logs) list" where
  "hook_logs h [] = []"
| "hook_logs h (HookCall i h' l # events) =
     (if h' = h then (i, l) # hook_logs h events else hook_logs h events)"
| "hook_logs h (ev # events) = hook_logs h events"

section \<open>A small instance\<close>

text \<open>
  Tensors and variables are real numbers: a network with one weight and two outputs,
  the absolute error as the loss of both, an optimizer that counts its steps, and
  callbacks that count their calls.
\<close>

definition abs_loss :: "real \<Rightarrow> real \<Rightarrow> tfloat" where
  "abs_loss y_true y_pred = Fin \<bar>y_true - y_pred\<bar>"

definition toy_model :: "(real, real, nat, string) AdvLossModel" where
  "toy_model =
     \<lparr>trainable_variables = 1, optimizer = 0, loss = [abs_loss, abs_loss],
      writer = None, use_ema = None, use_adv = None, adv_config = None\<rparr>"

definition toy_tf :: "(real, real, nat, string) collaborators" where
  "toy_tf =
     \<lparr>call = (\<lambda>self images training.
                 [trainable_variables self * images, trainable_variables self * images + 1]),
      adversarial_loss = (\<lambda>self images y_trues labeled_loss cfg. Fin 1),
      gradient = (\<lambda>self inputs loss_value. 1),
      apply_gradients = (\<lambda>opt gradients variables. (Suc opt, variables - gradients / 2))\<rparr>"

definition quiet :: "nat callback" where
  "quiet =
     \<lparr>cb_state = 0, set_model = (\<lambda>s. s),
      on_train_begin = (\<lambda>s l. (Suc s, l)),
      on_epoch_begin = (\<lambda>s epoch l. (Suc s, l)),
      on_epoch_end = (\<lambda>s epoch l. (Suc s, l)),
      on_train_end = (\<lambda>s l. (Suc s, l))\<rparr>"

text \<open>A callback that records the learning rate in the log at the end of an epoch.\<close>

definition lr_logger :: "nat callback" where
  "lr_logger = quiet\<lparr>on_epoch_end := (\<lambda>s epoch l. (Suc s, l(''lr'' \<mapsto> Fin 1)))\<rparr>"

text \<open>A callback that records a start marker in the log when training begins.\<close>

definition start_marker :: "nat callback" where
  "start_marker = quiet\<lparr>on_train_begin := (\<lambda>s l. (Suc s, l(''start'' \<mapsto> Fin 0)))\<rparr>"

text \<open>The same model once the four attributes of \<open>fit\<close> are set.\<close>

definition toy_configured :: "(real, real, nat, string) AdvLossModel" where
  "toy_configured =
     toy_model\<lparr>writer := Some None, use_ema := Some False, use_adv := Some False,
               adv_config := Some default_adv_config\<rparr>"

section \<open>Evaluating the small instance\<close>

lemmas toy_defs = toy_model_def toy_tf_def abs_loss_def quiet_def lr_logger_def
  start_marker_def default_adv_config_def

lemmas run_defs = fit_def fit_epoch_def distributed_epoch_def traced_reads_def train_step_def
  val_step_def
  compute_total_loss_def Let_def calls_of_def config_of_def

lemma upt_2: "[0..<2] = [0, Suc 0]"
  by (simp add: upt_rec)

section \<open>Properties of the schedule\<close>

lemma linear_warmup_finite:
  "warmup_steps self \<noteq> 0 \<Longrightarrow>
   linear_warmup self s =
     Fin (warmup_lr self + s / warmup_steps self * (lr self - warmup_lr self))"
  by (simp add: linear_warmup_def)

lemma consine_lr_finite:
  "total_steps self \<noteq> warmup_steps self \<Longrightarrow>
   consine_lr self s =
     Fin (lr self * (cos (pi * (s - warmup_steps self) / (total_steps self - warmup_steps self)) + 1) / 2)"
  by (simp add: consine_lr_def fsub_def)

text \<open>
  C7, as stated, fails when \<open>warmup_steps = 0\<close>: the warm-up formula divides
  \<open>global_step = 0\<close> by zero, and its value at the boundary is NaN, not \<open>lr\<close>. The
  schedule itself selects the cosine branch there.
\<close>

theorem C7_boundary_counterexample:
  "\<not> (\<forall>self. warmup_steps self < total_steps self \<longrightarrow>
         linear_warmup self (warmup_steps self) = Fin (lr self) \<and>
         consine_lr self (warmup_steps self) = Fin (lr self))"
proof
  assume a: "\<forall>self. warmup_steps self < total_steps self \<longrightarrow>
         linear_warmup self (warmup_steps self) = Fin (lr self) \<and>
         consine_lr self (warmup_steps self) = Fin (lr self)"
  let ?p = "\<lparr>lr = 1, total_steps = 10, warmup_lr = 0, warmup_steps = 0\<rparr>"
  have "warmup_steps ?p < total_steps ?p" by simp
  with a have "linear_warmup ?p (warmup_steps ?p) = Fin (lr ?p)" by blast
  then show False by (simp add: linear_warmup_def)
qed

text \<open>
  C7, amended: when \<open>warmup_steps\<close> is not zero and lies below \<open>total_steps\<close>, both
  formulas evaluated at \<open>global_step = warmup_steps\<close> give \<open>lr\<close>, so the value of the
  branch the schedule selects there (the cosine one) is also the value of the other.
\<close>

theorem C7_boundary:
  assumes "warmup_steps self \<noteq> 0" and "warmup_steps self < total_steps self"
  shows "linear_warmup self (warmup_steps self) = Fin (lr self) \<and>
         consine_lr self (warmup_steps self) = Fin (lr self) \<and>
         schedule_call self (warmup_steps self) = consine_lr self (warmup_steps self)"
  using assms by (simp add: linear_warmup_finite consine_lr_finite schedule_call_def)

theorem C7_boundary_witness:
  "linear_warmup \<lparr>lr = 1, total_steps = 10, warmup_lr = 0, warmup_steps = 2\<rparr> 2 = Fin 1 \<and>
   consine_lr \<lparr>lr = 1, total_steps = 10, warmup_lr = 0, warmup_steps = 2\<rparr> 2 = Fin 1 \<and>
   schedule_call \<lparr>lr = 1, total_steps = 10, warmup_lr = 0, warmup_steps = 2\<rparr> 2 = Fin 1"
  using C7_boundary [of "\<lparr>lr = 1, total_steps = 10, warmup_lr = 0, warmup_steps = 2\<rparr>"]
  by simp



section \<open>Properties of the loss aggregator\<close>

lemma compute_total_loss_loop_foldl:
  "compute_total_loss_loop loss_value zs =
     foldl fadd loss_value (map (\<lambda>(y_true, y_pred, loss_object). loss_object y_true y_pred) zs)"
  by (induction zs arbitrary: loss_value) auto

lemma zip3_map_nth:
  "map (\<lambda>(a, b, f). f a b) (zip xs (zip ys fs)) =
   map (\<lambda>i. (fs ! i) (xs ! i) (ys ! i)) [0..<min (length xs) (min (length ys) (length fs))]"
  by (rule nth_equalityI) simp_all

text \<open>
  C1, as stated, fails: \<open>zip\<close> stops at the shortest of its arguments, and nothing
  in \<open>_compute_total_loss\<close> compares lengths. With 2 targets, 3 predictions and 2
  loss functions the call returns the sum of the two losses it can pair up
  (\<open>|1 - 3| + |2 - 5| = 5\<close>) and the third prediction is ignored.
\<close>

theorem C1_length_mismatch_counterexample:
  "compute_total_loss toy_model [1, 2] [3, 5, 7] None = Inr (Fin 5)"
  by (simp add: compute_total_loss_def toy_model_def abs_loss_def)

text \<open>
  C1, amended: for all sequences of targets and predictions, of equal length or not,
  the aggregator raises nothing; it returns the sum, from the left and starting at
  0, of \<open>loss_object(y_true, y_pred)\<close> over the positions that all three sequences
  have, that is the first \<open>min\<close> of the three lengths.
\<close>

theorem C1_aggregator_truncates:
  "compute_total_loss self y_trues y_preds sample_weights =
     Inr (fsum (map (\<lambda>i. (loss self ! i) (y_trues ! i) (y_preds ! i))
                 [0..<min (length y_trues) (min (length y_preds) (length (loss self)))]))"
  by (simp add: compute_total_loss_def compute_total_loss_loop_foldl fsum_def zip3_map_nth)

section \<open>Properties of the step executor\<close>

lemma val_step_result:
  "val_step tf self inputs =
     Inr (compute_total_loss_loop (Fin 0)
            (zip (snd inputs) (zip (call tf self (fst inputs) False) (loss self))), self, [])"
  by (simp add: val_step_def compute_total_loss_def)

text \<open>
  C8: the validation step calls the network with \<open>training=False\<close>, aggregates the
  loss of its predictions and returns that scalar. The model it leaves is the model it
  was given, so every trainable variable and the optimizer are unchanged, and it
  performs no effect: no tape records gradients, no gradients are applied, no moving
  average is updated.
\<close>

theorem C8_val_step:
  "\<exists>loss_value.
     compute_total_loss self (snd inputs) (call tf self (fst inputs) False) None = Inr loss_value \<and>
     val_step tf self inputs = Inr (loss_value, self, [])"
  by (simp add: val_step_def compute_total_loss_def)

text \<open>
  By contrast a training step that returns has recorded and applied gradients, and has
  updated the moving average after that exactly when \<open>use_ema\<close> is true.
\<close>

lemma train_step_effects:
  "train_step tf self inputs = Inr (v, self', es) \<Longrightarrow>
   es = [TapeWatchVariables] @ (if use_adv self = Some True then [TapeWatchImages] else []) @
        [TapeGradient, ApplyGradients] @
        (if use_ema self = Some True then [EmaApply (9999 / 10000) True] else [])"
  by (auto simp: train_step_def Let_def compute_total_loss_def
      split: option.splits if_splits sum.splits)

text \<open>
  The adversarial branch with the moving average on, and a step on a model on which
  \<open>fit\<close> has not yet set the attributes.
\<close>

lemma train_step_adversarial_example:
  "train_step toy_tf
     (toy_model\<lparr>use_ema := Some True, use_adv := Some True,
                adv_config := Some default_adv_config\<rparr>) (1, [2, 3]) =
   Inr (Fin (11 / 5),
        toy_model\<lparr>trainable_variables := 1 / 2, optimizer := 1, use_ema := Some True,
                  use_adv := Some True, adv_config := Some default_adv_config\<rparr>,
        [TapeWatchVariables, TapeWatchImages, TapeGradient, ApplyGradients,
         EmaApply (9999 / 10000) True])"
  by (simp add: toy_defs train_step_def compute_total_loss_def Let_def)

lemma train_step_unconfigured_example:
  "train_step toy_tf toy_model (1, [2, 3]) = Inl (AttributeError ''use_adv'')"
  by (simp add: toy_defs train_step_def)

lemma train_step_config:
  "train_step tf self inputs = Inr (v, self', es) \<Longrightarrow> config_of self' = config_of self"
  by (auto simp: train_step_def Let_def config_of_def compute_total_loss_def
      split: option.splits if_splits sum.splits)

lemma train_step_returns:
  "configured self \<Longrightarrow> \<exists>v self' es. train_step tf self inputs = Inr (v, self', es)"
  by (auto simp: train_step_def Let_def configured_def compute_total_loss_def
      split: option.splits if_splits sum.splits)

lemma step_config:
  "(if step then train_step tf self inputs else val_step tf self inputs) = Inr (v, self', es)
   \<Longrightarrow> config_of self' = config_of self"
  by (cases step) (auto simp: val_step_result dest: train_step_config)

lemma step_returns:
  "configured self \<Longrightarrow>
   \<exists>v self' es. (if step then train_step tf self inputs else val_step tf self inputs)
      = Inr (v, self', es)"
  by (cases step) (auto simp: val_step_result dest: train_step_returns)

lemma configured_config_of:
  "config_of self' = config_of self \<Longrightarrow> configured self' = configured self"
  by (simp add: config_of_def configured_def)

section \<open>Properties of the epoch runner\<close>

lemma distributed_epoch_loop_config:
  "distributed_epoch_loop tf step total_loss num_batches self dataset = Inr (r, self', es)
   \<Longrightarrow> config_of self' = config_of self"
proof (induction dataset arbitrary: total_loss num_batches self r es)
  case Nil
  then show ?case by simp
next
  case (Cons batch rest)
  from Cons.prems obtain w v self1 es1 r2 es2 where
    w: "writer self = Some w" and
    s: "(if step then train_step tf self batch else val_step tf self batch) = Inr (v, self1, es1)" and
    l: "distributed_epoch_loop tf step (fadd total_loss v) (num_batches + 1) self1 rest
          = Inr (r2, self', es2)"
    by (auto simp: Let_def split: option.splits sum.splits prod.splits)
  from Cons.IH [OF l] step_config [OF s] show ?case by simp
qed

lemma distributed_epoch_loop_returns:
  "configured self \<Longrightarrow>
   \<exists>self' es. distributed_epoch_loop tf step total_loss num_batches self dataset =
      Inr ((foldl fadd total_loss (epoch_losses tf step self dataset),
            num_batches + real (length dataset)), self', es) \<and>
     length (epoch_losses tf step self dataset) = length dataset"
proof (induction dataset arbitrary: total_loss num_batches self)
  case Nil
  then show ?case by simp
next
  case (Cons batch rest)
  from Cons.prems obtain w where w: "writer self = Some w"
    by (auto simp: configured_def)
  from step_returns [OF Cons.prems] obtain v self1 es1 where
    s: "(if step then train_step tf self batch else val_step tf self batch) = Inr (v, self1, es1)"
    by blast
  have "configured self1"
    using step_config [OF s] Cons.prems configured_config_of by blast
  from Cons.IH [OF this, of "fadd total_loss v" "num_batches + 1"]
  obtain self' es where
    l: "distributed_epoch_loop tf step (fadd total_loss v) (num_batches + 1) self1 rest =
      Inr ((foldl fadd (fadd total_loss v) (epoch_losses tf step self1 rest),
            num_batches + 1 + real (length rest)), self', es)"
    and n: "length (epoch_losses tf step self1 rest) = length rest"
    by blast
  show ?case
    using w s l n by (simp add: Let_def add.assoc)
qed

lemma distributed_epoch_config:
  "distributed_epoch tf self dataset step num = Inr (v, self', es)
   \<Longrightarrow> config_of self' = config_of self"
  by (auto simp: distributed_epoch_def split: sum.splits prod.splits option.splits
      dest: distributed_epoch_loop_config)

lemma traced_reads_configured: "configured self \<Longrightarrow> traced_reads self step = None"
  by (auto simp: traced_reads_def configured_def split: option.splits)

lemma distributed_epoch_returns:
  "configured self \<Longrightarrow> \<exists>v self' es. distributed_epoch tf self dataset step num = Inr (v, self', es)"
  using distributed_epoch_loop_returns [of self tf step "Fin 0" 0 dataset]
  by (auto simp: distributed_epoch_def traced_reads_configured)

lemma distributed_epoch_empty:
  "configured self \<Longrightarrow> distributed_epoch tf self [] step num = Inr (NaN, self, [])"
  by (simp add: distributed_epoch_def traced_reads_configured)

lemma distributed_epoch_empty_result:
  "distributed_epoch tf self [] step num = Inr (v, self', es) \<Longrightarrow> v = NaN"
  by (auto simp: distributed_epoch_def split: option.splits)

text \<open>
  On a model without the attribute \<open>writer\<close> the epoch runner raises, with a batch
  to run and without one.
\<close>

lemma distributed_epoch_unconfigured_example:
  "distributed_epoch toy_tf toy_model [(1, [2, 3])] False 1 = Inl (AttributeError ''writer'') \<and>
   distributed_epoch toy_tf toy_model [] False 0 = Inl (AttributeError ''writer'')"
  by (simp add: toy_defs distributed_epoch_def traced_reads_def)



section \<open>Properties of a round of hook calls\<close>

lemma upt_shift: "[i..<i + Suc n] = i # [Suc i..<Suc i + n]"
  using upt_conv_Cons [of i "i + Suc n"] by simp

lemma emit_kinds:
  "map kind_of (fst (emit h i cbs l)) = map (\<lambda>j. Hook j h) [i..<i + length cbs]"
proof (induction cbs arbitrary: i l)
  case Nil
  then show ?case by simp
next
  case (Cons cb cbs)
  have "map kind_of (fst (emit h i (cb # cbs) l)) =
      Hook i h # map (\<lambda>j. Hook j h) [Suc i..<Suc i + length cbs]"
    by (simp add: case_prod_beta Cons.IH)
  also have "\<dots> = map (\<lambda>j. Hook j h) [i..<i + Suc (length cbs)]"
    by (simp only: upt_shift list.map)
  finally show ?case by simp
qed

lemma emit_length:
  "length (fst (snd (emit h i cbs l))) = length cbs"
proof (induction cbs arbitrary: i l)
  case Nil
  then show ?case by simp
next
  case (Cons cb cbs)
  show ?case by (simp add: case_prod_beta Cons.IH)
qed

lemma emit_members:
  "HookCall j h' l' \<in> set (fst (emit h i cbs l)) \<Longrightarrow> i \<le> j \<and> h' = h \<and> (j = i \<longrightarrow> l' = l)"
proof (induction cbs arbitrary: i l)
  case Nil
  then show ?case by simp
next
  case (Cons cb cbs)
  from Cons.prems have
    "(j = i \<and> h' = h \<and> l' = l) \<or>
     HookCall j h' l' \<in> set (fst (emit h (Suc i) cbs (snd (call_hook h cb l))))"
    by (simp add: case_prod_beta)
  then show ?case
  proof
    assume "j = i \<and> h' = h \<and> l' = l"
    then show ?thesis by simp
  next
    assume "HookCall j h' l' \<in> set (fst (emit h (Suc i) cbs (snd (call_hook h cb l))))"
    from Cons.IH [OF this] show ?thesis by simp
  qed
qed

lemma emit_nonempty:
  "cbs \<noteq> [] \<Longrightarrow> \<exists>rest. fst (emit h i cbs l) = HookCall i h l # rest"
  by (cases cbs) (simp_all add: case_prod_beta)

lemma leaves_log_state [simp]: "leaves_log (cb\<lparr>cb_state := s\<rparr>) = leaves_log cb"
  by (simp add: leaves_log_def)

lemma call_hook_leaves_log:
  "leaves_log cb \<Longrightarrow> snd (call_hook h cb l) = l \<and> leaves_log (fst (call_hook h cb l))"
  by (cases h) (simp_all add: leaves_log_def)

lemma emit_leaves_log:
  "\<forall>cb \<in> set cbs. leaves_log cb \<Longrightarrow>
   snd (snd (emit h i cbs l)) = l \<and>
   (\<forall>cb \<in> set (fst (snd (emit h i cbs l))). leaves_log cb) \<and>
   (\<forall>j h' l'. HookCall j h' l' \<in> set (fst (emit h i cbs l)) \<longrightarrow> l' = l)"
proof (induction cbs arbitrary: i)
  case Nil
  then show ?case by simp
next
  case (Cons cb cbs)
  from Cons.prems have cb: "leaves_log cb" and cbs: "\<forall>cb \<in> set cbs. leaves_log cb"
    by simp_all
  from call_hook_leaves_log [OF cb, of h l] have
    c: "snd (call_hook h cb l) = l" "leaves_log (fst (call_hook h cb l))"
    by simp_all
  from Cons.IH [OF cbs, of "Suc i"] have
    ih1: "snd (snd (emit h (Suc i) cbs l)) = l" and
    ih2: "\<forall>cb \<in> set (fst (snd (emit h (Suc i) cbs l))). leaves_log cb" and
    ih3: "\<forall>j h' l'. HookCall j h' l' \<in> set (fst (emit h (Suc i) cbs l)) \<longrightarrow> l' = l"
    by blast+
  show ?case
    using ih1 ih2 ih3 c
    by (simp add: case_prod_beta)
qed

lemma emit_keeps_log:
  "\<forall>cb \<in> set cbs. snd (call_hook h cb l) = l \<Longrightarrow>
   snd (snd (emit h i cbs l)) = l \<and>
   (\<forall>j h' l'. HookCall j h' l' \<in> set (fst (emit h i cbs l)) \<longrightarrow> l' = l)"
proof (induction cbs arbitrary: i)
  case Nil
  then show ?case by simp
next
  case (Cons cb cbs)
  from Cons.prems have c: "snd (call_hook h cb l) = l"
    and cbs: "\<forall>cb \<in> set cbs. snd (call_hook h cb l) = l"
    by simp_all
  from Cons.IH [OF cbs, of "Suc i"] have
    ih1: "snd (snd (emit h (Suc i) cbs l)) = l" and
    ih3: "\<forall>j h' l'. HookCall j h' l' \<in> set (fst (emit h (Suc i) cbs l)) \<longrightarrow> l' = l"
    by blast+
  show ?case
    using ih1 ih3 c by (simp add: case_prod_beta)
qed

lemma configure_callbacks_kinds:
  "map kind_of (fst (configure_callbacks i cbs)) = map Bind [i..<i + length cbs]"
proof (induction cbs arbitrary: i)
  case Nil
  then show ?case by simp
next
  case (Cons cb cbs)
  have "map kind_of (fst (configure_callbacks i (cb # cbs))) =
      Bind i # map Bind [Suc i..<Suc i + length cbs]"
    by (simp add: case_prod_beta Cons.IH)
  also have "\<dots> = map Bind [i..<i + Suc (length cbs)]"
    by (simp only: upt_shift list.map)
  finally show ?case by simp
qed

lemma configure_callbacks_length:
  "length (snd (configure_callbacks i cbs)) = length cbs"
proof (induction cbs arbitrary: i)
  case Nil
  then show ?case by simp
next
  case (Cons cb cbs)
  show ?case by (simp add: case_prod_beta Cons.IH)
qed

lemma configure_callbacks_only_binds:
  "ev \<in> set (fst (configure_callbacks i cbs)) \<Longrightarrow> \<exists>j. ev = SetModel j"
proof (induction cbs arbitrary: i)
  case Nil
  then show ?case by simp
next
  case (Cons cb cbs)
  then show ?case by (auto simp: case_prod_beta)
qed

lemma configure_callbacks_leaves_log:
  "\<forall>cb \<in> set cbs. leaves_log cb \<Longrightarrow>
   \<forall>cb \<in> set (snd (configure_callbacks i cbs)). leaves_log cb"
proof (induction cbs arbitrary: i)
  case Nil
  then show ?case by simp
next
  case (Cons cb cbs)
  then show ?case by (simp add: case_prod_beta)
qed

lemma configure_callbacks_map:
  "snd (configure_callbacks i cbs) =
     map (\<lambda>cb. cb\<lparr>cb_state := set_model cb (cb_state cb)\<rparr>) cbs"
proof (induction cbs arbitrary: i)
  case Nil
  then show ?case by simp
next
  case (Cons cb cbs)
  show ?case by (simp add: case_prod_beta Cons.IH)
qed


lemma keeps_keys_state [simp]: "keeps_keys (cb\<lparr>cb_state := s\<rparr>) = keeps_keys cb"
  by (simp add: keeps_keys_def)





section \<open>Properties of the loop over the epochs\<close>

lemma fit_epoch_Inr:
  assumes "fit_epoch tf train_dataset train_num val_dataset val_num epoch st = Inr st'"
  shows "\<exists>train_loss self1 es1 val_loss self2 es2.
    distributed_epoch tf (model_after st) train_dataset True train_num
      = Inr (train_loss, self1, es1) \<and>
    distributed_epoch tf self1 val_dataset False val_num = Inr (val_loss, self2, es2) \<and>
    calls st' = calls st @
      fst (emit (OnEpochBegin epoch) 0 (callbacks_after st) (logs_after st)) @
      [EpochRun True train_loss, EpochRun False val_loss] @
      fst (emit (OnEpochEnd epoch) 0
             (fst (snd (emit (OnEpochBegin epoch) 0 (callbacks_after st) (logs_after st))))
             ((snd (snd (emit (OnEpochBegin epoch) 0 (callbacks_after st) (logs_after st))))
                (''loss'' \<mapsto> train_loss, ''val_loss'' \<mapsto> val_loss))) \<and>
    model_after st' = self2 \<and>
    callbacks_after st' =
      fst (snd (emit (OnEpochEnd epoch) 0
             (fst (snd (emit (OnEpochBegin epoch) 0 (callbacks_after st) (logs_after st))))
             ((snd (snd (emit (OnEpochBegin epoch) 0 (callbacks_after st) (logs_after st))))
                (''loss'' \<mapsto> train_loss, ''val_loss'' \<mapsto> val_loss)))) \<and>
    logs_after st' =
      snd (snd (emit (OnEpochEnd epoch) 0
             (fst (snd (emit (OnEpochBegin epoch) 0 (callbacks_after st) (logs_after st))))
             ((snd (snd (emit (OnEpochBegin epoch) 0 (callbacks_after st) (logs_after st))))
                (''loss'' \<mapsto> train_loss, ''val_loss'' \<mapsto> val_loss))))"
  using assms
  by (auto simp: fit_epoch_def case_prod_beta split: sum.splits)

lemma fit_epoch_returns:
  assumes "configured (model_after st)"
  shows "\<exists>st'. fit_epoch tf train_dataset train_num val_dataset val_num epoch st = Inr st'"
proof -
  from distributed_epoch_returns [OF assms] obtain tl s1 es1 where
    a: "distributed_epoch tf (model_after st) train_dataset True train_num = Inr (tl, s1, es1)"
    by blast
  from distributed_epoch_config [OF a] assms have "configured s1"
    using configured_config_of by blast
  from distributed_epoch_returns [OF this] obtain vl s2 es2 where
    b: "distributed_epoch tf s1 val_dataset False val_num = Inr (vl, s2, es2)"
    by blast
  show ?thesis
    using a b by (simp add: fit_epoch_def case_prod_beta)
qed

lemma fit_epoch_config:
  assumes "fit_epoch tf train_dataset train_num val_dataset val_num epoch st = Inr st'"
  shows "config_of (model_after st') = config_of (model_after st) \<and>
         length (callbacks_after st') = length (callbacks_after st)"
proof -
  from fit_epoch_Inr [OF assms] obtain tl s1 es1 vl s2 es2 where
    a: "distributed_epoch tf (model_after st) train_dataset True train_num = Inr (tl, s1, es1)" and
    b: "distributed_epoch tf s1 val_dataset False val_num = Inr (vl, s2, es2)" and
    m: "model_after st' = s2" and
    c: "callbacks_after st' =
      fst (snd (emit (OnEpochEnd epoch) 0
             (fst (snd (emit (OnEpochBegin epoch) 0 (callbacks_after st) (logs_after st))))
             ((snd (snd (emit (OnEpochBegin epoch) 0 (callbacks_after st) (logs_after st))))
                (''loss'' \<mapsto> tl, ''val_loss'' \<mapsto> vl))))"
    by blast
  from distributed_epoch_config [OF a] distributed_epoch_config [OF b] m
  have "config_of (model_after st') = config_of (model_after st)" by simp
  moreover from c have "length (callbacks_after st') = length (callbacks_after st)"
    by (simp add: emit_length)
  ultimately show ?thesis by simp
qed

lemma fit_epoch_kinds:
  assumes "fit_epoch tf train_dataset train_num val_dataset val_num epoch st = Inr st'"
  shows "\<exists>new. calls st' = calls st @ new \<and>
     map kind_of new =
       hook_round (OnEpochBegin epoch) (length (callbacks_after st)) @ [Run True, Run False] @
       hook_round (OnEpochEnd epoch) (length (callbacks_after st))"
proof -
  from fit_epoch_Inr [OF assms] obtain tl vl where
    c: "calls st' = calls st @
      fst (emit (OnEpochBegin epoch) 0 (callbacks_after st) (logs_after st)) @
      [EpochRun True tl, EpochRun False vl] @
      fst (emit (OnEpochEnd epoch) 0
             (fst (snd (emit (OnEpochBegin epoch) 0 (callbacks_after st) (logs_after st))))
             ((snd (snd (emit (OnEpochBegin epoch) 0 (callbacks_after st) (logs_after st))))
                (''loss'' \<mapsto> tl, ''val_loss'' \<mapsto> vl)))"
    by blast
  show ?thesis
    by (rule exI, rule conjI, rule c) (simp add: emit_kinds emit_length hook_round_def)
qed

lemma fit_epochs_returns:
  "configured (model_after st) \<Longrightarrow>
   \<exists>st'. fit_epochs tf train_dataset train_num val_dataset val_num es st = Inr st'"
proof (induction es arbitrary: st)
  case Nil
  then show ?case by simp
next
  case (Cons epoch rest)
  from fit_epoch_returns [OF Cons.prems] obtain st1 where
    a: "fit_epoch tf train_dataset train_num val_dataset val_num epoch st = Inr st1"
    by blast
  from fit_epoch_config [OF a] Cons.prems have "configured (model_after st1)"
    using configured_config_of by blast
  from Cons.IH [OF this] a show ?case by simp
qed

lemma fit_epochs_config:
  "fit_epochs tf train_dataset train_num val_dataset val_num es st = Inr st' \<Longrightarrow>
   config_of (model_after st') = config_of (model_after st) \<and>
   length (callbacks_after st') = length (callbacks_after st)"
proof (induction es arbitrary: st)
  case Nil
  then show ?case by simp
next
  case (Cons epoch rest)
  from Cons.prems obtain st1 where
    a: "fit_epoch tf train_dataset train_num val_dataset val_num epoch st = Inr st1" and
    b: "fit_epochs tf train_dataset train_num val_dataset val_num rest st1 = Inr st'"
    by (auto split: sum.splits)
  from Cons.IH [OF b] fit_epoch_config [OF a] show ?case by simp
qed

lemma fit_epochs_kinds:
  "fit_epochs tf train_dataset train_num val_dataset val_num es st = Inr st' \<Longrightarrow>
   \<exists>new. calls st' = calls st @ new \<and>
     map kind_of new =
       concat (map (\<lambda>epoch.
          hook_round (OnEpochBegin epoch) (length (callbacks_after st)) @ [Run True, Run False] @
          hook_round (OnEpochEnd epoch) (length (callbacks_after st))) es)"
proof (induction es arbitrary: st)
  case Nil
  then show ?case by simp
next
  case (Cons epoch rest)
  from Cons.prems obtain st1 where
    a: "fit_epoch tf train_dataset train_num val_dataset val_num epoch st = Inr st1" and
    b: "fit_epochs tf train_dataset train_num val_dataset val_num rest st1 = Inr st'"
    by (auto split: sum.splits)
  from fit_epoch_kinds [OF a] obtain new1 where
    n1: "calls st1 = calls st @ new1" and
    k1: "map kind_of new1 =
       hook_round (OnEpochBegin epoch) (length (callbacks_after st)) @ [Run True, Run False] @
       hook_round (OnEpochEnd epoch) (length (callbacks_after st))"
    by blast
  from fit_epoch_config [OF a] have len: "length (callbacks_after st1) = length (callbacks_after st)"
    by simp
  from Cons.IH [OF b] len obtain new2 where
    n2: "calls st' = calls st1 @ new2" and
    k2: "map kind_of new2 =
       concat (map (\<lambda>epoch.
          hook_round (OnEpochBegin epoch) (length (callbacks_after st)) @ [Run True, Run False] @
          hook_round (OnEpochEnd epoch) (length (callbacks_after st))) rest)"
    by auto
  have "calls st' = calls st @ (new1 @ new2)" using n1 n2 by simp
  moreover have "map kind_of (new1 @ new2) =
       concat (map (\<lambda>epoch.
          hook_round (OnEpochBegin epoch) (length (callbacks_after st)) @ [Run True, Run False] @
          hook_round (OnEpochEnd epoch) (length (callbacks_after st))) (epoch # rest))"
    using k1 k2 by simp
  ultimately show ?case by blast
qed

lemma fit_epochs_prefix:
  "fit_epochs tf train_dataset train_num val_dataset val_num es st = Inr st' \<Longrightarrow>
   \<exists>new. calls st' = calls st @ new"
  using fit_epochs_kinds by blast

lemma fit_epochs_hooks:
  assumes "fit_epochs tf train_dataset train_num val_dataset val_num es st = Inr st'"
    and "HookCall i h l \<in> set (calls st')"
  shows "HookCall i h l \<in> set (calls st) \<or> (\<exists>e. h = OnEpochBegin e \<or> h = OnEpochEnd e)"
proof -
  from fit_epochs_kinds [OF assms(1)] obtain new where
    n: "calls st' = calls st @ new" and
    k: "map kind_of new =
       concat (map (\<lambda>epoch.
          hook_round (OnEpochBegin epoch) (length (callbacks_after st)) @ [Run True, Run False] @
          hook_round (OnEpochEnd epoch) (length (callbacks_after st))) es)"
    by blast
  show ?thesis
  proof (cases "HookCall i h l \<in> set (calls st)")
    case True
    then show ?thesis by simp
  next
    case False
    with assms(2) n have "HookCall i h l \<in> set new" by simp
    then have "kind_of (HookCall i h l) \<in> set (map kind_of new)"
      by (simp only: set_map) (rule imageI)
    with k have "Hook i h \<in> set (concat (map (\<lambda>epoch.
          hook_round (OnEpochBegin epoch) (length (callbacks_after st)) @ [Run True, Run False] @
          hook_round (OnEpochEnd epoch) (length (callbacks_after st))) es))"
      by simp
    then obtain epoch where
      "Hook i h \<in> set (hook_round (OnEpochBegin epoch) (length (callbacks_after st)) @
          [Run True, Run False] @
          hook_round (OnEpochEnd epoch) (length (callbacks_after st)))"
      by (auto simp only: set_concat set_map)
    then have "h = OnEpochBegin epoch \<or> h = OnEpochEnd epoch"
      by (auto simp: hook_round_def)
    then show ?thesis by blast
  qed
qed

lemma fit_epoch_end_logs:
  assumes "fit_epoch tf train_dataset train_num val_dataset val_num epoch st = Inr st'"
    and "HookCall 0 (OnEpochEnd e) l \<in> set (calls st')"
  shows "HookCall 0 (OnEpochEnd e) l \<in> set (calls st) \<or>
    (\<exists>l1 train_loss val_loss self0 self1 self2 es1 es2.
       l = l1(''loss'' \<mapsto> train_loss, ''val_loss'' \<mapsto> val_loss) \<and>
       distributed_epoch tf self0 train_dataset True train_num = Inr (train_loss, self1, es1) \<and>
       distributed_epoch tf self1 val_dataset False val_num = Inr (val_loss, self2, es2))"
proof -
  let ?b = "emit (OnEpochBegin epoch) 0 (callbacks_after st) (logs_after st)"
  from fit_epoch_Inr [OF assms(1)] obtain tl s1 es1 vl s2 es2 where
    a: "distributed_epoch tf (model_after st) train_dataset True train_num = Inr (tl, s1, es1)" and
    b: "distributed_epoch tf s1 val_dataset False val_num = Inr (vl, s2, es2)" and
    c: "calls st' = calls st @ fst ?b @ [EpochRun True tl, EpochRun False vl] @
      fst (emit (OnEpochEnd epoch) 0 (fst (snd ?b))
             ((snd (snd ?b))(''loss'' \<mapsto> tl, ''val_loss'' \<mapsto> vl)))"
    by blast
  from assms(2) c have
    "HookCall 0 (OnEpochEnd e) l \<in> set (calls st) \<or>
     HookCall 0 (OnEpochEnd e) l \<in> set (fst ?b) \<or>
     HookCall 0 (OnEpochEnd e) l \<in> set (fst (emit (OnEpochEnd epoch) 0 (fst (snd ?b))
             ((snd (snd ?b))(''loss'' \<mapsto> tl, ''val_loss'' \<mapsto> vl))))"
    by auto
  then show ?thesis
  proof (elim disjE)
    assume "HookCall 0 (OnEpochEnd e) l \<in> set (calls st)"
    then show ?thesis by simp
  next
    assume "HookCall 0 (OnEpochEnd e) l \<in> set (fst ?b)"
    from emit_members [OF this] show ?thesis by simp
  next
    assume "HookCall 0 (OnEpochEnd e) l \<in> set (fst (emit (OnEpochEnd epoch) 0 (fst (snd ?b))
             ((snd (snd ?b))(''loss'' \<mapsto> tl, ''val_loss'' \<mapsto> vl))))"
    from emit_members [OF this]
    have "l = (snd (snd ?b))(''loss'' \<mapsto> tl, ''val_loss'' \<mapsto> vl)" by simp
    with a b show ?thesis by blast
  qed
qed

lemma fit_epochs_end_logs:
  "fit_epochs tf train_dataset train_num val_dataset val_num es st = Inr st' \<Longrightarrow>
   HookCall 0 (OnEpochEnd e) l \<in> set (calls st') \<Longrightarrow>
   HookCall 0 (OnEpochEnd e) l \<in> set (calls st) \<or>
    (\<exists>l1 train_loss val_loss self0 self1 self2 es1 es2.
       l = l1(''loss'' \<mapsto> train_loss, ''val_loss'' \<mapsto> val_loss) \<and>
       distributed_epoch tf self0 train_dataset True train_num = Inr (train_loss, self1, es1) \<and>
       distributed_epoch tf self1 val_dataset False val_num = Inr (val_loss, self2, es2))"
proof (induction es arbitrary: st)
  case Nil
  then show ?case by simp
next
  case (Cons epoch rest)
  from Cons.prems(1) obtain st1 where
    a: "fit_epoch tf train_dataset train_num val_dataset val_num epoch st = Inr st1" and
    b: "fit_epochs tf train_dataset train_num val_dataset val_num rest st1 = Inr st'"
    by (auto split: sum.splits)
  from Cons.IH [OF b Cons.prems(2)] fit_epoch_end_logs [OF a, of e l]
  show ?case by blast
qed



lemma fit_epochs_rounds:
  "fit_epochs tf train_dataset train_num val_dataset val_num es st = Inr st' \<Longrightarrow>
   e \<in> set es \<Longrightarrow> callbacks_after st \<noteq> [] \<Longrightarrow>
   \<exists>pre post train_loss val_loss l.
      calls st' = pre @ [EpochRun True train_loss, EpochRun False val_loss,
                         HookCall 0 (OnEpochEnd e) l] @ post \<and>
      l ''loss'' = Some train_loss \<and> l ''val_loss'' = Some val_loss"
proof (induction es arbitrary: st)
  case Nil
  then show ?case by simp
next
  case (Cons epoch rest)
  from Cons.prems(1) obtain st1 where
    a: "fit_epoch tf train_dataset train_num val_dataset val_num epoch st = Inr st1" and
    b: "fit_epochs tf train_dataset train_num val_dataset val_num rest st1 = Inr st'"
    by (auto split: sum.splits)
  from fit_epoch_config [OF a] Cons.prems(3) have ne: "callbacks_after st1 \<noteq> []"
    by (metis length_0_conv)
  show ?case
  proof (cases "e = epoch")
    case True
    let ?b = "emit (OnEpochBegin epoch) 0 (callbacks_after st) (logs_after st)"
    from fit_epoch_Inr [OF a] obtain tl vl where
      c: "calls st1 = calls st @ fst ?b @ [EpochRun True tl, EpochRun False vl] @
        fst (emit (OnEpochEnd epoch) 0 (fst (snd ?b))
               ((snd (snd ?b))(''loss'' \<mapsto> tl, ''val_loss'' \<mapsto> vl)))"
      by blast
    let ?L = "(snd (snd ?b))(''loss'' \<mapsto> tl, ''val_loss'' \<mapsto> vl)"
    have "fst (snd ?b) \<noteq> []"
      using emit_length [of "OnEpochBegin epoch" 0 "callbacks_after st" "logs_after st"]
        Cons.prems(3) by (metis length_0_conv)
    from emit_nonempty [OF this, of "OnEpochEnd epoch" 0 ?L] obtain rest_events where
      r: "fst (emit (OnEpochEnd epoch) 0 (fst (snd ?b)) ?L) =
            HookCall 0 (OnEpochEnd epoch) ?L # rest_events"
      by blast
    from fit_epochs_prefix [OF b] obtain new where n: "calls st' = calls st1 @ new"
      by blast
    have "calls st' = (calls st @ fst ?b) @
        [EpochRun True tl, EpochRun False vl, HookCall 0 (OnEpochEnd e) ?L] @
        (rest_events @ new)"
      using c r n True by simp
    moreover have "?L ''loss'' = Some tl" "?L ''val_loss'' = Some vl"
      by simp_all
    ultimately show ?thesis by blast
  next
    case False
    with Cons.prems(2) have "e \<in> set rest" by simp
    from Cons.IH [OF b this ne] show ?thesis .
  qed
qed



lemma fit_epoch_final_log:
  assumes "fit_epoch tf train_dataset train_num val_dataset val_num epoch st = Inr st'"
    and "\<forall>cb \<in> set (callbacks_after st). leaves_log cb"
  shows "(\<forall>cb \<in> set (callbacks_after st'). leaves_log cb) \<and>
     (\<exists>train_loss self1 es1 val_loss self2 es2.
        distributed_epoch tf (model_after st) train_dataset True train_num
          = Inr (train_loss, self1, es1) \<and>
        distributed_epoch tf self1 val_dataset False val_num = Inr (val_loss, self2, es2) \<and>
        logs_after st' =
          (logs_after st)(''loss'' \<mapsto> train_loss, ''val_loss'' \<mapsto> val_loss))"
proof -
  let ?b = "emit (OnEpochBegin epoch) 0 (callbacks_after st) (logs_after st)"
  from fit_epoch_Inr [OF assms(1)] obtain tl s1 es1 vl s2 es2 where
    a: "distributed_epoch tf (model_after st) train_dataset True train_num = Inr (tl, s1, es1)" and
    b: "distributed_epoch tf s1 val_dataset False val_num = Inr (vl, s2, es2)" and
    cb: "callbacks_after st' = fst (snd (emit (OnEpochEnd epoch) 0 (fst (snd ?b))
             ((snd (snd ?b))(''loss'' \<mapsto> tl, ''val_loss'' \<mapsto> vl))))" and
    lg: "logs_after st' = snd (snd (emit (OnEpochEnd epoch) 0 (fst (snd ?b))
             ((snd (snd ?b))(''loss'' \<mapsto> tl, ''val_loss'' \<mapsto> vl))))"
    by blast
  let ?L = "(logs_after st)(''loss'' \<mapsto> tl, ''val_loss'' \<mapsto> vl)"
  from emit_leaves_log [OF assms(2), of "OnEpochBegin epoch" 0 "logs_after st"] have
    b1: "snd (snd ?b) = logs_after st" and
    b2: "\<forall>cb \<in> set (fst (snd ?b)). leaves_log cb"
    by blast+
  from emit_leaves_log [OF b2, of "OnEpochEnd epoch" 0 ?L] have
    e1: "snd (snd (emit (OnEpochEnd epoch) 0 (fst (snd ?b)) ?L)) = ?L" and
    e2: "\<forall>cb \<in> set (fst (snd (emit (OnEpochEnd epoch) 0 (fst (snd ?b)) ?L))). leaves_log cb"
    by blast+
  have 1: "\<forall>cb \<in> set (callbacks_after st'). leaves_log cb"
    using cb e2 b1 by simp
  have 2: "logs_after st' = ?L"
    using lg e1 b1 by simp
  from 1 2 a b show ?thesis by blast
qed

lemma fit_epochs_final_log:
  "fit_epochs tf train_dataset train_num val_dataset val_num es st = Inr st' \<Longrightarrow>
   \<forall>cb \<in> set (callbacks_after st). leaves_log cb \<Longrightarrow>
   es \<noteq> [] \<or>
     ((train_dataset = [] \<longrightarrow> logs_after st ''loss'' = Some NaN) \<and>
      (val_dataset = [] \<longrightarrow> logs_after st ''val_loss'' = Some NaN)) \<Longrightarrow>
   (\<forall>cb \<in> set (callbacks_after st'). leaves_log cb) \<and>
   (train_dataset = [] \<longrightarrow> logs_after st' ''loss'' = Some NaN) \<and>
   (val_dataset = [] \<longrightarrow> logs_after st' ''val_loss'' = Some NaN)"
proof (induction es arbitrary: st)
  case Nil
  then show ?case by simp
next
  case (Cons epoch rest)
  from Cons.prems(1) obtain st1 where
    a: "fit_epoch tf train_dataset train_num val_dataset val_num epoch st = Inr st1" and
    b: "fit_epochs tf train_dataset train_num val_dataset val_num rest st1 = Inr st'"
    by (auto split: sum.splits)
  from fit_epoch_final_log [OF a Cons.prems(2)] obtain tl s1 es1 vl s2 es2 where
    1: "\<forall>cb \<in> set (callbacks_after st1). leaves_log cb" and
    t: "distributed_epoch tf (model_after st) train_dataset True train_num = Inr (tl, s1, es1)" and
    v: "distributed_epoch tf s1 val_dataset False val_num = Inr (vl, s2, es2)" and
    l: "logs_after st1 = (logs_after st)(''loss'' \<mapsto> tl, ''val_loss'' \<mapsto> vl)"
    by blast
  have tn: "train_dataset = [] \<longrightarrow> logs_after st1 ''loss'' = Some NaN"
  proof
    assume "train_dataset = []"
    with t have "tl = NaN" using distributed_epoch_empty_result by blast
    with l show "logs_after st1 ''loss'' = Some NaN" by simp
  qed
  have vn: "val_dataset = [] \<longrightarrow> logs_after st1 ''val_loss'' = Some NaN"
  proof
    assume "val_dataset = []"
    with v have "vl = NaN" using distributed_epoch_empty_result by blast
    with l show "logs_after st1 ''val_loss'' = Some NaN" by simp
  qed
  from tn vn have "rest \<noteq> [] \<or>
     ((train_dataset = [] \<longrightarrow> logs_after st1 ''loss'' = Some NaN) \<and>
      (val_dataset = [] \<longrightarrow> logs_after st1 ''val_loss'' = Some NaN))"
    by simp
  from Cons.IH [OF b 1 this] show ?case .
qed

section \<open>Properties of the training orchestrator\<close>

lemma fit_Inr:
  assumes "fit tf self epochs callbacks train_dataset train_num val_dataset val_num
             writer' use_ema' use_adv' adv_config' = Inr r"
  shows "\<exists>st.
    fit_epochs tf train_dataset train_num val_dataset val_num [0..<nat epochs]
      \<lparr>calls = fst (configure_callbacks 0 callbacks) @
                fst (emit OnTrainBegin 0 (snd (configure_callbacks 0 callbacks)) Map.empty),
       effects = [],
       model_after = self\<lparr>writer := Some writer', use_ema := Some use_ema',
                          use_adv := Some use_adv', adv_config := Some adv_config'\<rparr>,
       callbacks_after =
         fst (snd (emit OnTrainBegin 0 (snd (configure_callbacks 0 callbacks)) Map.empty)),
       logs_after =
         snd (snd (emit OnTrainBegin 0 (snd (configure_callbacks 0 callbacks)) Map.empty))\<rparr>
      = Inr st \<and>
    calls r = calls st @ fst (emit OnTrainEnd 0 (callbacks_after st) (logs_after st)) \<and>
    model_after r = model_after st \<and>
    logs_after r = snd (snd (emit OnTrainEnd 0 (callbacks_after st) (logs_after st)))"
  using assms
  by (auto simp: fit_def Let_def case_prod_beta split: sum.splits)

lemma fit_returns:
  "\<exists>r. fit tf self epochs callbacks train_dataset train_num val_dataset val_num
          writer' use_ema' use_adv' adv_config' = Inr r"
proof -
  let ?st0 = "\<lparr>calls = fst (configure_callbacks 0 callbacks) @
                fst (emit OnTrainBegin 0 (snd (configure_callbacks 0 callbacks)) Map.empty),
       effects = [],
       model_after = self\<lparr>writer := Some writer', use_ema := Some use_ema',
                          use_adv := Some use_adv', adv_config := Some adv_config'\<rparr>,
       callbacks_after =
         fst (snd (emit OnTrainBegin 0 (snd (configure_callbacks 0 callbacks)) Map.empty)),
       logs_after =
         snd (snd (emit OnTrainBegin 0 (snd (configure_callbacks 0 callbacks)) Map.empty))\<rparr>"
  have "configured (model_after ?st0)" by (simp add: configured_def)
  from fit_epochs_returns [OF this] obtain st where
    "fit_epochs tf train_dataset train_num val_dataset val_num [0..<nat epochs] ?st0 = Inr st"
    by blast
  then show ?thesis
    by (simp add: fit_def Let_def case_prod_beta)
qed

lemma fit_config:
  assumes "fit tf self epochs callbacks train_dataset train_num val_dataset val_num
             writer' use_ema' use_adv' adv_config' = Inr r"
  shows "config_of (model_after r) =
           (Some writer', Some use_ema', Some use_adv', Some adv_config')"
proof -
  from fit_Inr [OF assms] obtain st where
    a: "fit_epochs tf train_dataset train_num val_dataset val_num [0..<nat epochs]
      \<lparr>calls = fst (configure_callbacks 0 callbacks) @
                fst (emit OnTrainBegin 0 (snd (configure_callbacks 0 callbacks)) Map.empty),
       effects = [],
       model_after = self\<lparr>writer := Some writer', use_ema := Some use_ema',
                          use_adv := Some use_adv', adv_config := Some adv_config'\<rparr>,
       callbacks_after =
         fst (snd (emit OnTrainBegin 0 (snd (configure_callbacks 0 callbacks)) Map.empty)),
       logs_after =
         snd (snd (emit OnTrainBegin 0 (snd (configure_callbacks 0 callbacks)) Map.empty))\<rparr>
      = Inr st" and m: "model_after r = model_after st"
    by blast
  from fit_epochs_config [OF a] m show ?thesis
    by (simp add: config_of_def)
qed

lemma start_no_epoch_end:
  "HookCall i (OnEpochEnd e) l \<notin>
     set (fst (configure_callbacks 0 callbacks) @ fst (emit OnTrainBegin 0 cbs l0))"
proof
  assume "HookCall i (OnEpochEnd e) l \<in>
     set (fst (configure_callbacks 0 callbacks) @ fst (emit OnTrainBegin 0 cbs l0))"
  then consider "HookCall i (OnEpochEnd e) l \<in> set (fst (configure_callbacks 0 callbacks))"
    | "HookCall i (OnEpochEnd e) l \<in> set (fst (emit OnTrainBegin 0 cbs l0))"
    by auto
  then show False
  proof cases
    case 1
    from configure_callbacks_only_binds [OF this] show False by simp
  next
    case 2
    from emit_members [OF this] show False by simp
  qed
qed

lemma fit_end_logs:
  assumes "fit tf self epochs callbacks train_dataset train_num val_dataset val_num
             writer' use_ema' use_adv' adv_config' = Inr r"
    and "HookCall 0 (OnEpochEnd e) l \<in> set (calls r)"
  shows "\<exists>l1 train_loss val_loss self0 self1 self2 es1 es2.
       l = l1(''loss'' \<mapsto> train_loss, ''val_loss'' \<mapsto> val_loss) \<and>
       distributed_epoch tf self0 train_dataset True train_num = Inr (train_loss, self1, es1) \<and>
       distributed_epoch tf self1 val_dataset False val_num = Inr (val_loss, self2, es2)"
proof -
  let ?st0 = "\<lparr>calls = fst (configure_callbacks 0 callbacks) @
                fst (emit OnTrainBegin 0 (snd (configure_callbacks 0 callbacks)) Map.empty),
       effects = [],
       model_after = self\<lparr>writer := Some writer', use_ema := Some use_ema',
                          use_adv := Some use_adv', adv_config := Some adv_config'\<rparr>,
       callbacks_after =
         fst (snd (emit OnTrainBegin 0 (snd (configure_callbacks 0 callbacks)) Map.empty)),
       logs_after =
         snd (snd (emit OnTrainBegin 0 (snd (configure_callbacks 0 callbacks)) Map.empty))\<rparr>"
  from fit_Inr [OF assms(1)] obtain st where
    a: "fit_epochs tf train_dataset train_num val_dataset val_num [0..<nat epochs] ?st0 = Inr st"
    and c: "calls r = calls st @ fst (emit OnTrainEnd 0 (callbacks_after st) (logs_after st))"
    by blast
  have "HookCall 0 (OnEpochEnd e) l \<in> set (calls st)"
  proof (rule ccontr)
    assume "HookCall 0 (OnEpochEnd e) l \<notin> set (calls st)"
    with assms(2) c have
      "HookCall 0 (OnEpochEnd e) l \<in> set (fst (emit OnTrainEnd 0 (callbacks_after st) (logs_after st)))"
      by simp
    from emit_members [OF this] show False by simp
  qed
  from fit_epochs_end_logs [OF a this]
    start_no_epoch_end [of 0 e l callbacks "snd (configure_callbacks 0 callbacks)" Map.empty]
  show ?thesis
    by simp
qed

lemma fit_kinds:
  assumes "fit tf self epochs callbacks train_dataset train_num val_dataset val_num
             writer' use_ema' use_adv' adv_config' = Inr r"
  shows "map kind_of (calls r) = protocol (length callbacks) (nat epochs)"
proof -
  let ?cbs0 = "snd (configure_callbacks 0 callbacks)"
  let ?st0 = "\<lparr>calls = fst (configure_callbacks 0 callbacks) @
                fst (emit OnTrainBegin 0 ?cbs0 Map.empty),
       effects = [],
       model_after = self\<lparr>writer := Some writer', use_ema := Some use_ema',
                          use_adv := Some use_adv', adv_config := Some adv_config'\<rparr>,
       callbacks_after = fst (snd (emit OnTrainBegin 0 ?cbs0 Map.empty)),
       logs_after = snd (snd (emit OnTrainBegin 0 ?cbs0 Map.empty))\<rparr>"
  from fit_Inr [OF assms] obtain st where
    a: "fit_epochs tf train_dataset train_num val_dataset val_num [0..<nat epochs] ?st0 = Inr st"
    and c: "calls r = calls st @ fst (emit OnTrainEnd 0 (callbacks_after st) (logs_after st))"
    by blast
  have n0: "length (callbacks_after ?st0) = length callbacks"
    by (simp add: emit_length configure_callbacks_length)
  from fit_epochs_config [OF a] n0 have n: "length (callbacks_after st) = length callbacks"
    by simp
  from fit_epochs_kinds [OF a] n0 obtain new where
    new: "calls st = calls ?st0 @ new" and
    k: "map kind_of new =
       concat (map (\<lambda>epoch.
          hook_round (OnEpochBegin epoch) (length callbacks) @ [Run True, Run False] @
          hook_round (OnEpochEnd epoch) (length callbacks)) [0..<nat epochs])"
    by auto
  have k0: "map kind_of (calls ?st0) =
      map Bind [0..<length callbacks] @ hook_round OnTrainBegin (length callbacks)"
    by (simp add: configure_callbacks_kinds emit_kinds configure_callbacks_length hook_round_def)
  have ke: "map kind_of (fst (emit OnTrainEnd 0 (callbacks_after st) (logs_after st))) =
      hook_round OnTrainEnd (length callbacks)"
    by (simp add: emit_kinds n hook_round_def)
  have "map kind_of (calls r) =
      map kind_of (calls ?st0) @ map kind_of new @
      map kind_of (fst (emit OnTrainEnd 0 (callbacks_after st) (logs_after st)))"
    by (simp only: c new map_append append_assoc)
  then show ?thesis
    by (simp only: k0 k ke protocol_def append_assoc)
qed

lemma fit_train_begin_calls:
  assumes "fit tf self epochs callbacks train_dataset train_num val_dataset val_num
             writer' use_ema' use_adv' adv_config' = Inr r"
    and "HookCall i OnTrainBegin l \<in> set (calls r)"
  shows "HookCall i OnTrainBegin l \<in>
     set (fst (emit OnTrainBegin 0 (snd (configure_callbacks 0 callbacks)) Map.empty))"
proof -
  let ?cbs0 = "snd (configure_callbacks 0 callbacks)"
  let ?st0 = "\<lparr>calls = fst (configure_callbacks 0 callbacks) @
                fst (emit OnTrainBegin 0 ?cbs0 Map.empty),
       effects = [],
       model_after = self\<lparr>writer := Some writer', use_ema := Some use_ema',
                          use_adv := Some use_adv', adv_config := Some adv_config'\<rparr>,
       callbacks_after = fst (snd (emit OnTrainBegin 0 ?cbs0 Map.empty)),
       logs_after = snd (snd (emit OnTrainBegin 0 ?cbs0 Map.empty))\<rparr>"
  from fit_Inr [OF assms(1)] obtain st where
    a: "fit_epochs tf train_dataset train_num val_dataset val_num [0..<nat epochs] ?st0 = Inr st"
    and c: "calls r = calls st @ fst (emit OnTrainEnd 0 (callbacks_after st) (logs_after st))"
    by blast
  have "HookCall i OnTrainBegin l \<in> set (calls st)"
  proof (rule ccontr)
    assume "HookCall i OnTrainBegin l \<notin> set (calls st)"
    with assms(2) c have
      "HookCall i OnTrainBegin l \<in> set (fst (emit OnTrainEnd 0 (callbacks_after st) (logs_after st)))"
      by simp
    from emit_members [OF this] show False by simp
  qed
  from fit_epochs_hooks [OF a this] have "HookCall i OnTrainBegin l \<in> set (calls ?st0)"
    by simp
  then consider "HookCall i OnTrainBegin l \<in> set (fst (configure_callbacks 0 callbacks))"
    | "HookCall i OnTrainBegin l \<in> set (fst (emit OnTrainBegin 0 ?cbs0 Map.empty))"
    by auto
  then show ?thesis
  proof cases
    case 1
    from configure_callbacks_only_binds [OF this] show ?thesis by simp
  next
    case 2
    then show ?thesis .
  qed
qed

lemma fit_rounds:
  assumes "fit tf self epochs callbacks train_dataset train_num val_dataset val_num
             writer' use_ema' use_adv' adv_config' = Inr r"
    and "e < nat epochs" and "callbacks \<noteq> []"
  shows "\<exists>pre post train_loss val_loss l.
      calls r = pre @ [EpochRun True train_loss, EpochRun False val_loss,
                       HookCall 0 (OnEpochEnd e) l] @ post \<and>
      l ''loss'' = Some train_loss \<and> l ''val_loss'' = Some val_loss"
proof -
  let ?cbs0 = "snd (configure_callbacks 0 callbacks)"
  let ?st0 = "\<lparr>calls = fst (configure_callbacks 0 callbacks) @
                fst (emit OnTrainBegin 0 ?cbs0 Map.empty),
       effects = [],
       model_after = self\<lparr>writer := Some writer', use_ema := Some use_ema',
                          use_adv := Some use_adv', adv_config := Some adv_config'\<rparr>,
       callbacks_after = fst (snd (emit OnTrainBegin 0 ?cbs0 Map.empty)),
       logs_after = snd (snd (emit OnTrainBegin 0 ?cbs0 Map.empty))\<rparr>"
  from fit_Inr [OF assms(1)] obtain st where
    a: "fit_epochs tf train_dataset train_num val_dataset val_num [0..<nat epochs] ?st0 = Inr st"
    and c: "calls r = calls st @ fst (emit OnTrainEnd 0 (callbacks_after st) (logs_after st))"
    by blast
  have "length (callbacks_after ?st0) = length callbacks"
    by (simp add: emit_length configure_callbacks_length)
  with assms(3) have ne: "callbacks_after ?st0 \<noteq> []"
    by (metis length_0_conv)
  from assms(2) have "e \<in> set [0..<nat epochs]" by simp
  from fit_epochs_rounds [OF a this ne] obtain pre post tl vl l where
    d: "calls st = pre @ [EpochRun True tl, EpochRun False vl, HookCall 0 (OnEpochEnd e) l] @ post"
    and v: "l ''loss'' = Some tl" "l ''val_loss'' = Some vl"
    by blast
  have "calls r = pre @ [EpochRun True tl, EpochRun False vl, HookCall 0 (OnEpochEnd e) l] @
      (post @ fst (emit OnTrainEnd 0 (callbacks_after st) (logs_after st)))"
    by (simp only: c d append_assoc)
  with v show ?thesis by blast
qed


lemma fit_final_log:
  assumes "fit tf self epochs callbacks train_dataset train_num val_dataset val_num
             writer' use_ema' use_adv' adv_config' = Inr r"
    and "0 < epochs" and "\<forall>cb \<in> set callbacks. leaves_log cb"
  shows "(train_dataset = [] \<longrightarrow> logs_after r ''loss'' = Some NaN) \<and>
         (val_dataset = [] \<longrightarrow> logs_after r ''val_loss'' = Some NaN)"
proof -
  let ?cbs0 = "snd (configure_callbacks 0 callbacks)"
  let ?st0 = "\<lparr>calls = fst (configure_callbacks 0 callbacks) @
                fst (emit OnTrainBegin 0 ?cbs0 Map.empty),
       effects = [],
       model_after = self\<lparr>writer := Some writer', use_ema := Some use_ema',
                          use_adv := Some use_adv', adv_config := Some adv_config'\<rparr>,
       callbacks_after = fst (snd (emit OnTrainBegin 0 ?cbs0 Map.empty)),
       logs_after = snd (snd (emit OnTrainBegin 0 ?cbs0 Map.empty))\<rparr>"
  from fit_Inr [OF assms(1)] obtain st where
    a: "fit_epochs tf train_dataset train_num val_dataset val_num [0..<nat epochs] ?st0 = Inr st"
    and l: "logs_after r = snd (snd (emit OnTrainEnd 0 (callbacks_after st) (logs_after st)))"
    by blast
  from configure_callbacks_leaves_log [OF assms(3), of 0]
  have b: "\<forall>cb \<in> set ?cbs0. leaves_log cb" .
  from emit_leaves_log [OF b, of OnTrainBegin 0 Map.empty]
  have k: "\<forall>cb \<in> set (callbacks_after ?st0). leaves_log cb"
    by simp
  from assms(2) have "[0..<nat epochs] \<noteq> []" by simp
  then have "[0..<nat epochs] \<noteq> [] \<or>
     ((train_dataset = [] \<longrightarrow> logs_after ?st0 ''loss'' = Some NaN) \<and>
      (val_dataset = [] \<longrightarrow> logs_after ?st0 ''val_loss'' = Some NaN))"
    by (rule disjI1)
  from fit_epochs_final_log [OF a k this] have
    1: "\<forall>cb \<in> set (callbacks_after st). leaves_log cb" and
    2: "train_dataset = [] \<longrightarrow> logs_after st ''loss'' = Some NaN" and
    3: "val_dataset = [] \<longrightarrow> logs_after st ''val_loss'' = Some NaN"
    by blast+
  from emit_leaves_log [OF 1, of OnTrainEnd 0 "logs_after st"] l
  have "logs_after r = logs_after st" by simp
  with 2 3 show ?thesis by simp
qed

text \<open>
  C4, as stated, fails: \<open>fit\<close> assigns \<open>writer\<close>, \<open>use_ema\<close>, \<open>use_adv\<close> and
  \<open>adv_config\<close> in its first four statements and never clears them. After a call with
  the default flags and an adversarial configuration of its own, on a model that had
  none of the four attributes, all four are set and the model still holds that
  configuration.
\<close>

theorem C4_config_persists_counterexample:
  "map_sum id (config_of \<circ> model_after)
     (fit toy_tf toy_model 1 ([] :: nat callback list) [(1, [2, 3])] 1 [(1, [2, 3])] 1
        None False False
        \<lparr>multiplier = 1 / 2, adv_step_size = 1 / 10, adv_grad_norm = ''l2''\<rparr>) =
   Inr (Some None, Some False, Some False,
        Some \<lparr>multiplier = 1 / 2, adv_step_size = 1 / 10, adv_grad_norm = ''l2''\<rparr>)"
  by (simp add: toy_defs run_defs)

text \<open>
  C4, amended: \<open>fit\<close> always returns, and when it has returned the four attributes
  are still set on the model: each holds the value that was passed to this call.
\<close>

theorem C4_config_persists:
  "\<exists>r. fit tf self epochs callbacks train_dataset train_num val_dataset val_num
           writer' use_ema' use_adv' adv_config' = Inr r \<and>
        writer (model_after r) = Some writer' \<and> use_ema (model_after r) = Some use_ema' \<and>
        use_adv (model_after r) = Some use_adv' \<and>
        adv_config (model_after r) = Some adv_config'"
proof -
  from fit_returns obtain r where
    r: "fit tf self epochs callbacks train_dataset train_num val_dataset val_num
           writer' use_ema' use_adv' adv_config' = Inr r"
    by blast
  from fit_config [OF r] have
    "writer (model_after r) = Some writer' \<and> use_ema (model_after r) = Some use_ema' \<and>
     use_adv (model_after r) = Some use_adv' \<and> adv_config (model_after r) = Some adv_config'"
    by (simp add: config_of_def)
  with r show ?thesis by blast
qed




text \<open>
  C6, as stated, fails in one point: the log is shared, so \<open>on_train_begin\<close> reaches
  every callback with an empty log only as long as no callback before it has written
  to it. With a first callback that writes the key \<open>start\<close> in \<open>on_train_begin\<close>,
  the second callback receives a log that holds this key.
\<close>

theorem C6_callback_protocol_counterexample:
  "map (\<lambda>(i, l). (i, dom l))
     (hook_logs OnTrainBegin (calls_of
        (fit toy_tf toy_model 1 [start_marker, quiet] [(1, [2, 3])] 1 [(1, [2, 3])] 1
           None False False default_adv_config))) =
   [(0, {}), (1, {''start''})]"
  by (simp add: toy_defs run_defs)

text \<open>
  C6, amended: \<open>fit\<close> always returns, and its calls are, in this order: \<open>set_model\<close>
  on every callback; \<open>on_train_begin\<close> on every callback, once each; for every epoch
  from 0 to \<open>epochs - 1\<close>, \<open>on_epoch_begin\<close> on every callback, the training epoch,
  the validation epoch, \<open>on_epoch_end\<close> on every callback; \<open>on_train_end\<close> on every
  callback, once each; within a hook the callbacks are called in list order. The first
  callback receives an empty log in \<open>on_train_begin\<close>, and every callback does when no
  \<open>on_train_begin\<close> writes to the log. In every epoch the two epoch runs are directly
  followed by the first \<open>on_epoch_end\<close> call, whose log holds the result of the
  training run under \<open>loss\<close> and that of the validation run under \<open>val_loss\<close>.
\<close>

theorem C6_callback_protocol:
  "\<exists>r. fit tf self epochs callbacks train_dataset train_num val_dataset val_num
           writer' use_ema' use_adv' adv_config' = Inr r \<and>
     map kind_of (calls r) = protocol (length callbacks) (nat epochs) \<and>
     (\<forall>l. HookCall 0 OnTrainBegin l \<in> set (calls r) \<longrightarrow> l = Map.empty) \<and>
     ((\<forall>cb \<in> set callbacks. \<forall>s l. snd (on_train_begin cb s l) = l) \<longrightarrow>
      (\<forall>i l. HookCall i OnTrainBegin l \<in> set (calls r) \<longrightarrow> l = Map.empty)) \<and>
     (\<forall>e < nat epochs. callbacks \<noteq> [] \<longrightarrow>
        (\<exists>pre post train_loss val_loss l.
           calls r = pre @ [EpochRun True train_loss, EpochRun False val_loss,
                            HookCall 0 (OnEpochEnd e) l] @ post \<and>
           l ''loss'' = Some train_loss \<and> l ''val_loss'' = Some val_loss))"
proof -
  from fit_returns obtain r where
    r: "fit tf self epochs callbacks train_dataset train_num val_dataset val_num
           writer' use_ema' use_adv' adv_config' = Inr r"
    by blast
  have A: "map kind_of (calls r) = protocol (length callbacks) (nat epochs)"
    by (rule fit_kinds [OF r])
  have B: "\<forall>l. HookCall 0 OnTrainBegin l \<in> set (calls r) \<longrightarrow> l = Map.empty"
  proof (intro allI impI)
    fix l
    assume "HookCall 0 OnTrainBegin l \<in> set (calls r)"
    from emit_members [OF fit_train_begin_calls [OF r this]]
    show "l = Map.empty" by simp
  qed
  have C: "(\<forall>cb \<in> set callbacks. \<forall>s l. snd (on_train_begin cb s l) = l) \<longrightarrow>
      (\<forall>i l. HookCall i OnTrainBegin l \<in> set (calls r) \<longrightarrow> l = Map.empty)"
  proof (intro allI impI)
    fix i l
    assume quiet: "\<forall>cb \<in> set callbacks. \<forall>s l. snd (on_train_begin cb s l) = l"
      and m: "HookCall i OnTrainBegin l \<in> set (calls r)"
    have "\<forall>cb \<in> set (snd (configure_callbacks 0 callbacks)).
        snd (call_hook OnTrainBegin cb Map.empty) = Map.empty"
      using quiet by (simp add: configure_callbacks_map)
    from emit_keeps_log [OF this, of 0] fit_train_begin_calls [OF r m]
    show "l = Map.empty" by blast
  qed
  have D: "\<forall>e < nat epochs. callbacks \<noteq> [] \<longrightarrow>
        (\<exists>pre post train_loss val_loss l.
           calls r = pre @ [EpochRun True train_loss, EpochRun False val_loss,
                            HookCall 0 (OnEpochEnd e) l] @ post \<and>
           l ''loss'' = Some train_loss \<and> l ''val_loss'' = Some val_loss)"
  proof (intro allI impI)
    fix e
    assume "e < nat epochs" and "callbacks \<noteq> []"
    then show "\<exists>pre post train_loss val_loss l.
           calls r = pre @ [EpochRun True train_loss, EpochRun False val_loss,
                            HookCall 0 (OnEpochEnd e) l] @ post \<and>
           l ''loss'' = Some train_loss \<and> l ''val_loss'' = Some val_loss"
      by (rule fit_rounds [OF r])
  qed
  show ?thesis
    apply (rule exI [of _ r])
    apply (intro conjI)
        apply (rule r)
       apply (rule A)
      apply (rule B)
     apply (rule C)
    apply (rule D)
    done
qed

text \<open>
  Two epochs with two callbacks that leave the log alone.
\<close>

theorem C6_callback_protocol_witness:
  "(1 :: nat) < nat 2 \<and> [quiet, quiet] \<noteq> [] \<and> leaves_log quiet \<and>
   map kind_of (calls_of
        (fit toy_tf toy_model 2 [quiet, quiet] [(1, [2, 3])] 1 [(1, [2, 3])] 1
           None False False default_adv_config)) =
     [Bind 0, Bind 1, Hook 0 OnTrainBegin, Hook 1 OnTrainBegin,
      Hook 0 (OnEpochBegin 0), Hook 1 (OnEpochBegin 0), Run True, Run False,
      Hook 0 (OnEpochEnd 0), Hook 1 (OnEpochEnd 0),
      Hook 0 (OnEpochBegin 1), Hook 1 (OnEpochBegin 1), Run True, Run False,
      Hook 0 (OnEpochEnd 1), Hook 1 (OnEpochEnd 1),
      Hook 0 OnTrainEnd, Hook 1 OnTrainEnd] \<and>
   map (\<lambda>(i, l). (i, dom l))
     (hook_logs OnTrainBegin (calls_of
        (fit toy_tf toy_model 2 [quiet, quiet] [(1, [2, 3])] 1 [(1, [2, 3])] 1
           None False False default_adv_config))) =
     [(0, {}), (1, {})] \<and>
   map (\<lambda>(i, l). (i, l ''loss'', l ''val_loss''))
     (hook_logs (OnEpochEnd 1) (calls_of
        (fit toy_tf toy_model 2 [quiet, quiet] [(1, [2, 3])] 1 [(1, [2, 3])] 1
           None False False default_adv_config))) =
     [(0, Some (Fin 3), Some (Fin 4)), (1, Some (Fin 3), Some (Fin 4))]"
  using C6_callback_protocol [of toy_tf toy_model 2 "[quiet, quiet]" "[(1, [2, 3])]" 1
      "[(1, [2, 3])]" 1 None False False default_adv_config]
  by (simp add: toy_defs run_defs upt_2 leaves_log_def)

text \<open>
  C10: on a dataset without batches the epoch runner, called on a model whose four
  attributes are set, raises nothing and returns \<open>0.0 / 0.0\<close>, which is NaN and not
  a finite mean. In \<open>fit\<close>, when the training dataset (the validation dataset) is
  empty, this value is stored in the log under \<open>loss\<close> (under \<open>val_loss\<close>): in every
  epoch the log that the first callback receives in \<open>on_epoch_end\<close> holds NaN there,
  and, when there is at least one epoch and no callback changes the log (no
  callback at all, for one), so does the log that \<open>fit\<close> leaves.
\<close>

theorem C10_empty_dataset:
  "(configured self \<longrightarrow> distributed_epoch tf self [] step num = Inr (NaN, self, [])) \<and>
   \<not> is_finite NaN \<and>
   (\<exists>r. fit tf self epochs callbacks [] train_num val_dataset val_num
           writer' use_ema' use_adv' adv_config' = Inr r \<and>
        (\<forall>e l. HookCall 0 (OnEpochEnd e) l \<in> set (calls r) \<longrightarrow> l ''loss'' = Some NaN) \<and>
        (0 < epochs \<and> (\<forall>cb \<in> set callbacks. leaves_log cb) \<longrightarrow>
           logs_after r ''loss'' = Some NaN)) \<and>
   (\<exists>r. fit tf self epochs callbacks train_dataset train_num [] val_num
           writer' use_ema' use_adv' adv_config' = Inr r \<and>
        (\<forall>e l. HookCall 0 (OnEpochEnd e) l \<in> set (calls r) \<longrightarrow> l ''val_loss'' = Some NaN) \<and>
        (0 < epochs \<and> (\<forall>cb \<in> set callbacks. leaves_log cb) \<longrightarrow>
           logs_after r ''val_loss'' = Some NaN))"
proof -
  from fit_returns obtain r1 where
    r1: "fit tf self epochs callbacks [] train_num val_dataset val_num
           writer' use_ema' use_adv' adv_config' = Inr r1"
    by blast
  from fit_returns obtain r2 where
    r2: "fit tf self epochs callbacks train_dataset train_num [] val_num
           writer' use_ema' use_adv' adv_config' = Inr r2"
    by blast
  have 1: "\<forall>e l. HookCall 0 (OnEpochEnd e) l \<in> set (calls r1) \<longrightarrow> l ''loss'' = Some NaN"
  proof (intro allI impI)
    fix e l
    assume "HookCall 0 (OnEpochEnd e) l \<in> set (calls r1)"
    from fit_end_logs [OF r1 this] obtain l1 tl vl self0 self1 es1 where
      l: "l = l1(''loss'' \<mapsto> tl, ''val_loss'' \<mapsto> vl)" and
      t: "distributed_epoch tf self0 [] True train_num = Inr (tl, self1, es1)"
      by blast
    from t have "tl = NaN" by (rule distributed_epoch_empty_result)
    with l show "l ''loss'' = Some NaN" by simp
  qed
  have 2: "\<forall>e l. HookCall 0 (OnEpochEnd e) l \<in> set (calls r2) \<longrightarrow> l ''val_loss'' = Some NaN"
  proof (intro allI impI)
    fix e l
    assume "HookCall 0 (OnEpochEnd e) l \<in> set (calls r2)"
    from fit_end_logs [OF r2 this] obtain l1 tl vl self1 self2 es2 where
      l: "l = l1(''loss'' \<mapsto> tl, ''val_loss'' \<mapsto> vl)" and
      t: "distributed_epoch tf self1 [] False val_num = Inr (vl, self2, es2)"
      by blast
    from t have "vl = NaN" by (rule distributed_epoch_empty_result)
    with l show "l ''val_loss'' = Some NaN" by simp
  qed
  have 3: "0 < epochs \<and> (\<forall>cb \<in> set callbacks. leaves_log cb) \<longrightarrow>
           logs_after r1 ''loss'' = Some NaN"
  proof
    assume "0 < epochs \<and> (\<forall>cb \<in> set callbacks. leaves_log cb)"
    then have "0 < epochs" and "\<forall>cb \<in> set callbacks. leaves_log cb" by simp_all
    from fit_final_log [OF r1 this] show "logs_after r1 ''loss'' = Some NaN" by simp
  qed
  have 4: "0 < epochs \<and> (\<forall>cb \<in> set callbacks. leaves_log cb) \<longrightarrow>
           logs_after r2 ''val_loss'' = Some NaN"
  proof
    assume "0 < epochs \<and> (\<forall>cb \<in> set callbacks. leaves_log cb)"
    then have "0 < epochs" and "\<forall>cb \<in> set callbacks. leaves_log cb" by simp_all
    from fit_final_log [OF r2 this] show "logs_after r2 ''val_loss'' = Some NaN" by simp
  qed
  have a: "\<exists>r. fit tf self epochs callbacks [] train_num val_dataset val_num
           writer' use_ema' use_adv' adv_config' = Inr r \<and>
        (\<forall>e l. HookCall 0 (OnEpochEnd e) l \<in> set (calls r) \<longrightarrow> l ''loss'' = Some NaN) \<and>
        (0 < epochs \<and> (\<forall>cb \<in> set callbacks. leaves_log cb) \<longrightarrow>
           logs_after r ''loss'' = Some NaN)"
    apply (rule exI [of _ r1])
    apply (intro conjI)
      apply (rule r1)
     apply (rule 1)
    apply (rule 3)
    done
  have b: "\<exists>r. fit tf self epochs callbacks train_dataset train_num [] val_num
           writer' use_ema' use_adv' adv_config' = Inr r \<and>
        (\<forall>e l. HookCall 0 (OnEpochEnd e) l \<in> set (calls r) \<longrightarrow> l ''val_loss'' = Some NaN) \<and>
        (0 < epochs \<and> (\<forall>cb \<in> set callbacks. leaves_log cb) \<longrightarrow>
           logs_after r ''val_loss'' = Some NaN)"
    apply (rule exI [of _ r2])
    apply (intro conjI)
      apply (rule r2)
     apply (rule 2)
    apply (rule 4)
    done
  have c: "configured self \<longrightarrow> distributed_epoch tf self [] step num = Inr (NaN, self, [])"
    by (simp add: distributed_epoch_empty)
  have d: "\<not> is_finite NaN" by simp
  from c d a b show ?thesis by (intro conjI)
qed

text \<open>
  The runner on the small model with its attributes set, and one epoch of \<open>fit\<close> over
  two empty datasets, with a callback that leaves the log alone and with no callback.
\<close>

theorem C10_empty_dataset_witness:
  "configured toy_configured \<and> leaves_log quiet \<and> (0 :: int) < 1 \<and>
   distributed_epoch toy_tf toy_configured [] True 0 = Inr (NaN, toy_configured, []) \<and>
   map (\<lambda>(i, l). (i, l ''loss'', l ''val_loss''))
     (hook_logs (OnEpochEnd 0) (calls_of
        (fit toy_tf toy_model 1 [quiet] [] 0 [] 0 None False False default_adv_config))) =
     [(0, Some NaN, Some NaN)] \<and>
   map_sum id (\<lambda>r. (logs_after r ''loss'', logs_after r ''val_loss''))
     (fit toy_tf toy_model 1 [quiet] [] 0 [] 0 None False False default_adv_config) =
     Inr (Some NaN, Some NaN) \<and>
   map_sum id (\<lambda>r. (calls r, logs_after r ''loss'', logs_after r ''val_loss''))
     (fit toy_tf toy_model 1 ([] :: nat callback list) [] 0 [] 0
        None False False default_adv_config) =
     Inr ([EpochRun True NaN, EpochRun False NaN], Some NaN, Some NaN)"
  using C10_empty_dataset [of toy_configured toy_tf True 0 1 "[quiet]" 0 "[]" 0
      None False False default_adv_config "[]"]
    C10_empty_dataset [of toy_configured toy_tf True 0 1 "[] :: nat callback list" 0 "[]" 0
      None False False default_adv_config "[]"]
  by (simp add: toy_defs run_defs toy_configured_def configured_def leaves_log_def)

end
